(* ===== verification/Prelude.thy ===== *)
theory Prelude
  imports Complex_Main "HOL-Library.Word" "HOL-Library.Monad_Syntax"
begin

text \<open>
  Shared vocabulary of the development.  The backend of the repository is asynchronous
  JavaScript: every \<open>await\<close> on the database may reject.  An awaited call is modelled
  as a value of \<open>'a attempt\<close> (\<open>None\<close>: the promise rejected, \<open>Some v\<close>: it resolved
  to \<open>v\<close>), and a sequence of awaits inside one \<open>try\<close> block is an option bind, so
  that the first rejection skips the rest of the block as the JavaScript exception does.
  The theory also holds the list lemmas that the place/user consistency proofs and the
  request-hook proofs share, and the named collections the component proofs feed to
  the simplifier.
\<close>

named_theorems store_simps "characteristic equations of the store operations"
named_theorems hook_simps "characteristic equations of the request hook's steps"

type_synonym 'a attempt = "'a option"

type_synonym byte = "8 word"

subsection \<open>Lists as ordered reference collections\<close>

text \<open>
  A user's place list and the hook's controller list are ordered collections of
  references; pushing appends, pulling removes every occurrence, filtering removes
  one controller.  These are the facts about them that the proofs use.
\<close>

lemma count_list_distinct_mem:
  assumes "distinct xs" and "x \<in> set xs"
  shows "count_list xs x = 1"
  using assms by (induction xs) auto

lemma count_list_snoc_fresh:
  "x \<notin> set xs \<Longrightarrow> count_list (xs @ [x]) x = 1"
  by simp

lemma distinct_snoc_fresh [intro]:
  "distinct xs \<Longrightarrow> x \<notin> set xs \<Longrightarrow> distinct (xs @ [x])"
  by simp

lemma set_filter_neq [simp]:
  "set (filter (\<lambda>y. y \<noteq> x) xs) = set xs - {x}"
  by auto

lemma distinct_filter_neq [intro]:
  "distinct xs \<Longrightarrow> distinct (filter (\<lambda>y. y \<noteq> x) xs)"
  by simp

lemma count_list_removeAll_other:
  "y \<noteq> x \<Longrightarrow> count_list (removeAll x xs) y = count_list xs y"
  by (induction xs) auto

subsection \<open>Partial maps as document collections\<close>

lemma dom_upd_subset [intro]:
  "k \<in> dom m \<Longrightarrow> dom (m(k \<mapsto> v)) = dom m"
  by auto

subsection \<open>Awaited calls\<close>

lemma map_option_Pair_eq_Some [simp]:
  "map_option (Pair i) m = Some (k, v) \<longleftrightarrow> m = Some v \<and> k = i"
  by (cases m) auto

lemma attempt_bind_Some_iff [simp]:
  "(Option.bind m f = Some y) \<longleftrightarrow> (\<exists>x. m = Some x \<and> f x = Some y)"
  by (cases m) auto

end
