(* ===== verification/Object_Id.thy ===== *)
theory Object_Id
  imports Prelude
begin

text \<open>
  Document identifiers.  Every \<open>_id\<close> of a Place or User document is a MongoDB
  ObjectId: twelve bytes.  The controllers receive identifiers as strings
  (\<open>req.params.pid\<close>, \<open>req.params.uid\<close>, \<open>req.body.creator\<close>) and hand them to
  \<open>findById\<close>, which casts the string to an ObjectId before querying; a string that
  does not cast makes the query reject with a CastError.  The cast of the bson library
  the backend's mongoose uses accepts exactly two shapes: a string of 24 hexadecimal
  digits (either case), read as 12 bytes, and any string of length 12, whose characters
  are taken as the 12 bytes.  The \<open>id\<close> virtual that \<open>toObject({getters: true})\<close> adds to
  a JSON view is the lower-case hex form of \<open>_id\<close>.  Strings are byte strings here
  (\<open>char\<close> is a byte), so JavaScript strings outside Latin-1 are not modelled.
  This is library code, not code of the repository: it is modelled from the spec and
  the bson documentation.
\<close>

type_synonym oid = "byte list"

definition hex_val :: "char \<Rightarrow> nat option" where
  "hex_val c =
     (let n = (of_char c :: nat) in
      if 48 \<le> n \<and> n \<le> 57 then Some (n - 48)
      else if 97 \<le> n \<and> n \<le> 102 then Some (n - 87)
      else if 65 \<le> n \<and> n \<le> 70 then Some (n - 55)
      else None)"

fun hex_bytes :: "string \<Rightarrow> byte list option" where
  "hex_bytes [] = Some []"
| "hex_bytes [_] = None"
| "hex_bytes (a # b # cs) =
     do { hi \<leftarrow> hex_val a; lo \<leftarrow> hex_val b; rest \<leftarrow> hex_bytes cs;
          Some (of_nat (16 * hi + lo) # rest) }"

definition cast_oid :: "string \<Rightarrow> oid option" where
  "cast_oid s =
     (if length s = 12 then Some (map (\<lambda>c. of_nat (of_char c)) s)
      else if length s = 24 then hex_bytes s
      else None)"

definition hex_digit :: "nat \<Rightarrow> char" where
  "hex_digit d = (if d < 10 then char_of (48 + d) else char_of (87 + d))"

definition oid_hex :: "oid \<Rightarrow> string" where
  "oid_hex i = concat (map (\<lambda>b. [hex_digit (unat b div 16), hex_digit (unat b mod 16)]) i)"

subsection \<open>Printing and casting back\<close>

lemma hex_val_hex_digit [simp]:
  "d < 16 \<Longrightarrow> hex_val (hex_digit d) = Some d"
  by (auto simp: hex_val_def hex_digit_def Let_def)

lemma length_oid_hex [simp]: "length (oid_hex i) = 2 * length i"
  by (induction i) (simp_all add: oid_hex_def)

lemma oid_hex_Cons:
  "oid_hex (b # i) = hex_digit (unat b div 16) # hex_digit (unat b mod 16) # oid_hex i"
  by (simp add: oid_hex_def)

lemma oid_hex_eq_Nil [simp]: "oid_hex i = [] \<longleftrightarrow> i = []"
  by (cases i) (simp_all add: oid_hex_Cons oid_hex_def)

lemma byte_hex_split: "(of_nat (16 * (unat b div 16) + unat b mod 16) :: byte) = b"
  by simp

lemma byte_hex_digits_bound:
  "unat (b :: byte) div 16 < 16" "unat (b :: byte) mod 16 < 16"
proof -
  have "unat b < 256" using unsigned_less [of b] by simp
  then show "unat b div 16 < 16" by simp
  show "unat b mod 16 < 16" by simp
qed

lemma hex_bytes_oid_hex: "hex_bytes (oid_hex i) = Some i"
proof (induction i)
  case Nil
  then show ?case by (simp add: oid_hex_def)
next
  case (Cons b i)
  then show ?case
    by (simp add: oid_hex_Cons byte_hex_digits_bound del: of_nat_add of_nat_mult)
qed

lemma hex_bytes_length:
  "hex_bytes s = Some i \<Longrightarrow> 2 * length i = length s"
proof (induction s arbitrary: i rule: hex_bytes.induct)
  case 1
  then show ?case by simp
next
  case (2 c)
  then show ?case by simp
next
  case (3 a b cs)
  then show ?case by (auto split: Option.bind_splits)
qed

lemma cast_oid_oid_hex [simp]:
  "length i = 12 \<Longrightarrow> cast_oid (oid_hex i) = Some i"
  by (simp add: cast_oid_def hex_bytes_oid_hex)

lemma cast_oid_length:
  "cast_oid s = Some i \<Longrightarrow> length i = 12"
  by (auto simp: cast_oid_def dest!: hex_bytes_length split: if_splits)

end
