(* ===== verification/Store.thy ===== *)
theory Store
  imports Object_Id
begin

text \<open>
  The domain store: the two MongoDB collections the place controllers read and write,
  the mongoose calls they make on them, and the place/user consistency invariant.
  The schemas (\<open>models/place.js\<close>, \<open>models/user.js\<close>) and mongoose itself are not
  under \<open>src/\<close>; they are modelled from the spec's data model (section 3) and from the
  documented mongoose semantics of the calls the controllers make:
  \<^item> \<open>Model.findById(s)\<close> casts \<open>s\<close> to an ObjectId (a CastError rejects the query)
    and resolves to the document or to \<open>null\<close>;
  \<^item> \<open>.populate("places")\<close> replaces each referenced id by its document and drops ids
    whose document is missing; \<open>.populate("creator")\<close> gives the user or \<open>null\<close>;
  \<^item> \<open>doc.save()\<close> of a new document inserts it (a duplicate \<open>_id\<close> or a failed schema
    validation rejects); of a loaded document it writes it back (a document that is
    gone rejects with DocumentNotFoundError); \<open>doc.remove()\<close> deletes it;
  \<^item> inside a session transaction, writes are visible to no one until
    \<open>commitTransaction\<close> resolves; a transaction that is never committed leaves the
    collections as they were.
  Every awaited call may also reject for reasons outside the model (network, server,
  write conflict).  Which calls reject is the environment's choice, a parameter
  \<open>fails :: faults\<close> of every operation, so that each theorem holds for every pattern
  of store failures.
\<close>

subsection \<open>Documents and collections\<close>

record coords =
  lat :: real
  lng :: real

record place =
  title :: string
  description :: string
  address :: string
  location :: "coords option"
  image :: string
  creator :: oid

record user =
  name :: string
  email :: string
  password :: string
  user_image :: string
  places :: "oid list"

record db =
  place_coll :: "oid \<rightharpoonup> place"
  user_coll :: "oid \<rightharpoonup> user"

datatype db_call =
  Find_Place | Find_User | Start_Session | Save_Place | Remove_Place | Save_User
  | Commit_Transaction

type_synonym faults = "db_call \<Rightarrow> bool"

definition no_faults :: faults where
  "no_faults = (\<lambda>_. False)"

definition await :: "faults \<Rightarrow> db_call \<Rightarrow> 'a \<Rightarrow> 'a attempt" where
  "await fails c v = (if fails c then None else Some v)"

subsection \<open>Queries\<close>

definition find_place_by_id :: "faults \<Rightarrow> db \<Rightarrow> string \<Rightarrow> (oid \<times> place) option attempt" where
  "find_place_by_id fails d s =
     (case cast_oid s of
        None \<Rightarrow> None
      | Some i \<Rightarrow> await fails Find_Place (map_option (Pair i) (place_coll d i)))"

definition find_user_by_id :: "faults \<Rightarrow> db \<Rightarrow> string \<Rightarrow> (oid \<times> user) option attempt" where
  "find_user_by_id fails d s =
     (case cast_oid s of
        None \<Rightarrow> None
      | Some i \<Rightarrow> await fails Find_User (map_option (Pair i) (user_coll d i)))"

definition populate_places :: "db \<Rightarrow> oid list \<Rightarrow> (oid \<times> place) list" where
  "populate_places d ids = List.map_filter (\<lambda>i. map_option (Pair i) (place_coll d i)) ids"

definition find_user_with_places ::
  "faults \<Rightarrow> db \<Rightarrow> string \<Rightarrow> (oid \<times> user \<times> (oid \<times> place) list) option attempt" where
  "find_user_with_places fails d s =
     map_option (map_option (\<lambda>(i, u). (i, u, populate_places d (places u))))
       (find_user_by_id fails d s)"

definition find_place_with_creator ::
  "faults \<Rightarrow> db \<Rightarrow> string \<Rightarrow> (oid \<times> place \<times> (oid \<times> user) option) option attempt" where
  "find_place_with_creator fails d s =
     map_option (map_option (\<lambda>(i, p). (i, p, map_option (Pair (creator p)) (user_coll d (creator p)))))
       (find_place_by_id fails d s)"

subsection \<open>Writes\<close>

definition place_schema_valid :: "place \<Rightarrow> bool" where
  "place_schema_valid p \<longleftrightarrow>
     title p \<noteq> [] \<and> description p \<noteq> [] \<and> address p \<noteq> [] \<and> location p \<noteq> None
     \<and> image p \<noteq> []"

definition insert_place :: "faults \<Rightarrow> db \<Rightarrow> oid \<Rightarrow> place \<Rightarrow> db attempt" where
  "insert_place fails d i p =
     (if \<not> place_schema_valid p \<or> place_coll d i \<noteq> None then None
      else await fails Save_Place (d\<lparr>place_coll := (place_coll d)(i \<mapsto> p)\<rparr>))"

definition update_place :: "faults \<Rightarrow> db \<Rightarrow> oid \<Rightarrow> place \<Rightarrow> db attempt" where
  "update_place fails d i p =
     (if \<not> place_schema_valid p \<or> place_coll d i = None then None
      else await fails Save_Place (d\<lparr>place_coll := (place_coll d)(i \<mapsto> p)\<rparr>))"

definition remove_place :: "faults \<Rightarrow> db \<Rightarrow> oid \<Rightarrow> db attempt" where
  "remove_place fails d i = await fails Remove_Place (d\<lparr>place_coll := (place_coll d)(i := None)\<rparr>)"

definition update_user :: "faults \<Rightarrow> db \<Rightarrow> oid \<Rightarrow> user \<Rightarrow> db attempt" where
  "update_user fails d i u =
     (if user_coll d i = None then None
      else await fails Save_User (d\<lparr>user_coll := (user_coll d)(i \<mapsto> u)\<rparr>))"

text \<open>
  \<open>mongoose.startSession()\<close>, \<open>sess.startTransaction()\<close>, the body's writes on the
  session, \<open>sess.commitTransaction()\<close>: the collections change only when the commit
  resolves, and then by everything the body wrote.
\<close>

definition run_transaction :: "faults \<Rightarrow> db \<Rightarrow> (db \<Rightarrow> db attempt) \<Rightarrow> db attempt" where
  "run_transaction fails d body =
     do { await fails Start_Session ();
          d' \<leftarrow> body d;
          await fails Commit_Transaction d' }"

subsection \<open>The place/user consistency invariant\<close>

text \<open>
  Spec section 3: every place's creator is an existing user whose place list holds the
  place, and every id in a user's place list is a place created by that user, listed
  once.  Both directions are stated per document, over the finite domains of the
  collections, so the invariant evaluates on a concrete store.
\<close>

definition place_linked :: "db \<Rightarrow> oid \<Rightarrow> bool" where
  "place_linked d i \<longleftrightarrow>
     (case place_coll d i of
        None \<Rightarrow> True
      | Some p \<Rightarrow> (case user_coll d (creator p) of
                    None \<Rightarrow> False
                  | Some u \<Rightarrow> i \<in> set (places u)))"

definition user_linked :: "db \<Rightarrow> oid \<Rightarrow> bool" where
  "user_linked d k \<longleftrightarrow>
     (case user_coll d k of
        None \<Rightarrow> True
      | Some u \<Rightarrow> distinct (places u) \<and>
                  list_all (\<lambda>i. case place_coll d i of None \<Rightarrow> False | Some p \<Rightarrow> creator p = k)
                    (places u))"

definition db_consistent :: "db \<Rightarrow> bool" where
  "db_consistent d \<longleftrightarrow>
     (\<forall>i \<in> dom (place_coll d). place_linked d i) \<and> (\<forall>k \<in> dom (user_coll d). user_linked d k)"

subsection \<open>The abstract place service\<close>

text \<open>
  What create, update and delete promise (spec 4.1), as single atomic updates of the
  two collections: \<open>link_place\<close> stores the place and appends its id to its creator's
  list, \<open>unlink_place\<close> deletes the place and pulls its id from its creator's list,
  \<open>edit_place\<close> replaces the title and description of a place and nothing else.
\<close>

definition link_place :: "db \<Rightarrow> oid \<Rightarrow> place \<Rightarrow> db" where
  "link_place d i p =
     d\<lparr>place_coll := (place_coll d)(i \<mapsto> p),
       user_coll := (user_coll d)(creator p := map_option (\<lambda>u. u\<lparr>places := places u @ [i]\<rparr>) (user_coll d (creator p)))\<rparr>"

definition unlink_place :: "db \<Rightarrow> oid \<Rightarrow> db" where
  "unlink_place d i =
     (case place_coll d i of
        None \<Rightarrow> d
      | Some p \<Rightarrow>
          d\<lparr>place_coll := (place_coll d)(i := None),
            user_coll := (user_coll d)(creator p := map_option (\<lambda>u. u\<lparr>places := removeAll i (places u)\<rparr>) (user_coll d (creator p)))\<rparr>)"

definition edit_place :: "db \<Rightarrow> oid \<Rightarrow> string \<Rightarrow> string \<Rightarrow> db" where
  "edit_place d i t desc =
     (case place_coll d i of
        None \<Rightarrow> d
      | Some p \<Rightarrow> d\<lparr>place_coll := (place_coll d)(i \<mapsto> p\<lparr>title := t, description := desc\<rparr>)\<rparr>)"

subsection \<open>Characteristic equations of the store calls\<close>

lemma await_Some [store_simps]: "await fails c v = Some v' \<longleftrightarrow> \<not> fails c \<and> v' = v"
  by (auto simp: await_def)

lemma find_place_by_id_Some [store_simps]:
  "find_place_by_id fails d s = Some r \<longleftrightarrow>
     (\<exists>i. cast_oid s = Some i \<and> \<not> fails Find_Place \<and> map_option (Pair i) (place_coll d i) = r)"
  by (auto simp: find_place_by_id_def store_simps split: option.splits)

lemma find_user_by_id_Some [store_simps]:
  "find_user_by_id fails d s = Some r \<longleftrightarrow>
     (\<exists>i. cast_oid s = Some i \<and> \<not> fails Find_User \<and> map_option (Pair i) (user_coll d i) = r)"
  by (auto simp: find_user_by_id_def store_simps split: option.splits)

lemma insert_place_Some [store_simps]:
  "insert_place fails d i p = Some d' \<longleftrightarrow>
     place_schema_valid p \<and> place_coll d i = None \<and> \<not> fails Save_Place \<and>
     d' = d\<lparr>place_coll := (place_coll d)(i \<mapsto> p)\<rparr>"
  by (auto simp: insert_place_def store_simps)

lemma update_place_Some [store_simps]:
  "update_place fails d i p = Some d' \<longleftrightarrow>
     place_schema_valid p \<and> place_coll d i \<noteq> None \<and> \<not> fails Save_Place \<and>
     d' = d\<lparr>place_coll := (place_coll d)(i \<mapsto> p)\<rparr>"
  by (auto simp: update_place_def store_simps)

lemma remove_place_Some [store_simps]:
  "remove_place fails d i = Some d' \<longleftrightarrow>
     \<not> fails Remove_Place \<and> d' = d\<lparr>place_coll := (place_coll d)(i := None)\<rparr>"
  by (auto simp: remove_place_def store_simps)

lemma update_user_Some [store_simps]:
  "update_user fails d k u = Some d' \<longleftrightarrow>
     user_coll d k \<noteq> None \<and> \<not> fails Save_User \<and> d' = d\<lparr>user_coll := (user_coll d)(k \<mapsto> u)\<rparr>"
  by (auto simp: update_user_def store_simps)

lemma run_transaction_Some [store_simps]:
  "run_transaction fails d body = Some d' \<longleftrightarrow>
     \<not> fails Start_Session \<and> body d = Some d' \<and> \<not> fails Commit_Transaction"
  by (auto simp: run_transaction_def store_simps)

text \<open>A transaction whose body does not reach its end changes nothing.\<close>

lemma run_transaction_body_None:
  "body d = None \<Longrightarrow> run_transaction fails d body = None"
  by (simp add: run_transaction_def)

subsection \<open>The invariant under the abstract operations\<close>

lemma db_consistent_place:
  assumes "db_consistent d" and "place_coll d i = Some p"
  shows "\<exists>u. user_coll d (creator p) = Some u \<and> i \<in> set (places u)"
proof -
  from assms have "place_linked d i" by (auto simp: db_consistent_def)
  with assms(2) show ?thesis by (auto simp: place_linked_def split: option.splits)
qed

lemma db_consistent_user:
  assumes "db_consistent d" and "user_coll d k = Some u"
  shows "distinct (places u) \<and> (\<forall>j \<in> set (places u). \<exists>q. place_coll d j = Some q \<and> creator q = k)"
proof -
  from assms have "user_linked d k" by (auto simp: db_consistent_def)
  with assms(2) show ?thesis by (auto simp: user_linked_def list_all_iff split: option.splits)
qed

lemma db_consistentI:
  assumes pl: "\<And>i p. place_coll d i = Some p \<Longrightarrow> \<exists>u. user_coll d (creator p) = Some u \<and> i \<in> set (places u)"
    and ul: "\<And>k u. user_coll d k = Some u \<Longrightarrow> distinct (places u) \<and> (\<forall>j \<in> set (places u). \<exists>q. place_coll d j = Some q \<and> creator q = k)"
  shows "db_consistent d"
proof -
  have "place_linked d i" for i
    using pl [of i] by (auto simp: place_linked_def split: option.splits)
  moreover have "user_linked d k" for k
  proof (cases "user_coll d k")
    case None
    then show ?thesis by (simp add: user_linked_def)
  next
    case (Some u)
    have "list_all (\<lambda>i. case place_coll d i of None \<Rightarrow> False | Some p \<Rightarrow> creator p = k) (places u)"
      using ul [OF Some] by (auto simp: list_all_iff)
    with ul [OF Some] Some show ?thesis by (simp add: user_linked_def)
  qed
  ultimately show ?thesis by (simp add: db_consistent_def)
qed

lemma unlisted_fresh:
  "db_consistent d \<Longrightarrow> place_coll d i = None \<Longrightarrow> user_coll d k = Some u \<Longrightarrow> i \<notin> set (places u)"
  by (fastforce dest: db_consistent_user)

lemma link_place_consistent:
  assumes c: "db_consistent d" and fresh: "place_coll d i = None" and owner: "user_coll d (creator p) \<noteq> None"
  shows "db_consistent (link_place d i p)"
proof (rule db_consistentI)
  fix j q assume "place_coll (link_place d i p) j = Some q"
  then show "\<exists>u. user_coll (link_place d i p) (creator q) = Some u \<and> j \<in> set (places u)"
  proof (cases "j = i")
    case True
    then show ?thesis using \<open>place_coll (link_place d i p) j = Some q\<close> owner
      by (auto simp: link_place_def)
  next
    case False
    with \<open>place_coll (link_place d i p) j = Some q\<close> have q: "place_coll d j = Some q"
      by (simp add: link_place_def)
    from db_consistent_place [OF c q] obtain u where "user_coll d (creator q) = Some u" "j \<in> set (places u)"
      by blast
    then show ?thesis by (auto simp: link_place_def)
  qed
next
  fix k u assume "user_coll (link_place d i p) k = Some u"
  then show "distinct (places u) \<and> (\<forall>j \<in> set (places u). \<exists>q. place_coll (link_place d i p) j = Some q \<and> creator q = k)"
  proof (cases "k = creator p")
    case True
    with \<open>user_coll (link_place d i p) k = Some u\<close> obtain u0 where
      u0: "user_coll d k = Some u0" and u: "u = u0\<lparr>places := places u0 @ [i]\<rparr>"
      by (auto simp: link_place_def)
    have ni: "i \<notin> set (places u0)" by (rule unlisted_fresh [OF c fresh u0])
    have du: "distinct (places u0)"
      and all: "\<forall>j \<in> set (places u0). \<exists>q. place_coll d j = Some q \<and> creator q = k"
      using db_consistent_user [OF c u0] by auto
    have "distinct (places u)" using du ni u by simp
    moreover have "\<forall>j \<in> set (places u). \<exists>q. place_coll (link_place d i p) j = Some q \<and> creator q = k"
    proof
      fix j assume "j \<in> set (places u)"
      then consider "j = i" | "j \<in> set (places u0)" using u by auto
      then show "\<exists>q. place_coll (link_place d i p) j = Some q \<and> creator q = k"
      proof cases
        case 1
        then show ?thesis using True by (simp add: link_place_def)
      next
        case 2
        with ni have "j \<noteq> i" by auto
        with all 2 show ?thesis by (simp add: link_place_def)
      qed
    qed
    ultimately show ?thesis ..
  next
    case False
    with \<open>user_coll (link_place d i p) k = Some u\<close> have u0: "user_coll d k = Some u"
      by (simp add: link_place_def)
    from db_consistent_user [OF c u0] fresh show ?thesis
      by (auto simp: link_place_def) 
  qed
qed

lemma unlink_place_consistent:
  assumes c: "db_consistent d"
  shows "db_consistent (unlink_place d i)"
proof (cases "place_coll d i")
  case None
  then show ?thesis using c by (simp add: unlink_place_def)
next
  case (Some p)
  show ?thesis
  proof (rule db_consistentI)
    fix j q assume "place_coll (unlink_place d i) j = Some q"
    then show "\<exists>u. user_coll (unlink_place d i) (creator q) = Some u \<and> j \<in> set (places u)"
    proof -
      from \<open>place_coll (unlink_place d i) j = Some q\<close> Some have "j \<noteq> i" and q: "place_coll d j = Some q"
        by (auto simp: unlink_place_def split: if_splits)
      with db_consistent_place [OF c q] show ?thesis using Some
        by (auto simp: unlink_place_def)
    qed
  next
    fix k u assume "user_coll (unlink_place d i) k = Some u"
    then show "distinct (places u) \<and> (\<forall>j \<in> set (places u). \<exists>q. place_coll (unlink_place d i) j = Some q \<and> creator q = k)"
    proof (cases "k = creator p")
      case True
      with \<open>user_coll (unlink_place d i) k = Some u\<close> Some obtain u0 where
        u0: "user_coll d k = Some u0" and u: "u = u0\<lparr>places := removeAll i (places u0)\<rparr>"
        by (auto simp: unlink_place_def)
      from db_consistent_user [OF c u0] u Some show ?thesis
        by (auto simp: unlink_place_def distinct_removeAll)
    next
      case False
      with \<open>user_coll (unlink_place d i) k = Some u\<close> Some have u0: "user_coll d k = Some u"
        by (simp add: unlink_place_def)
      have "i \<notin> set (places u)"
        using db_consistent_user [OF c u0] Some False by fastforce
      with db_consistent_user [OF c u0] Some show ?thesis
        by (auto simp: unlink_place_def)
    qed
  qed
qed

lemma edit_place_consistent:
  assumes c: "db_consistent d"
  shows "db_consistent (edit_place d i t desc)"
proof (rule db_consistentI)
  fix j q assume "place_coll (edit_place d i t desc) j = Some q"
  then obtain q0 where q0: "place_coll d j = Some q0" and "creator q = creator q0"
    by (auto simp: edit_place_def split: option.splits if_splits)
  with db_consistent_place [OF c q0] show "\<exists>u. user_coll (edit_place d i t desc) (creator q) = Some u \<and> j \<in> set (places u)"
    by (simp add: edit_place_def split: option.splits)
next
  fix k u assume u: "user_coll (edit_place d i t desc) k = Some u"
  then have u0: "user_coll d k = Some u" by (simp add: edit_place_def split: option.splits)
  from db_consistent_user [OF c u0]
  show "distinct (places u) \<and> (\<forall>j \<in> set (places u). \<exists>q. place_coll (edit_place d i t desc) j = Some q \<and> creator q = k)"
    by (auto simp: edit_place_def split: option.splits)
qed

end
