(* ===== verification/Http.thy ===== *)
theory Http
  imports Store
begin

text \<open>
  What a route handler can do to the HTTP exchange.  An Express handler
  \<open>(req, res, next) => ...\<close> either answers (\<open>res.json(b)\<close>, status 200, or
  \<open>res.status(n).json(b)\<close>), or passes an error to the error-handling middleware
  (\<open>next(error)\<close>), or lets an exception escape; since the handlers are \<open>async\<close>
  functions and Express 4 does not await them, an escaping exception is an unhandled
  promise rejection and the request gets no answer.  A handler may do several of these
  in one run (it is not stopped by \<open>next\<close>, only by \<open>return\<close>), so its effect is the
  list of these actions in the order it performs them.

  \<open>HTTPError\<close> (\<open>models/http-error.js\<close>, not under \<open>src/\<close>) is an \<open>Error\<close> with a
  message and a numeric \<open>code\<close>; errors from other sources (the geocoder) may carry no
  code, hence the option.  A place is sent either as \<open>place.toObject({getters: true})\<close>,
  which carries the virtual \<open>id\<close> (the hex string of \<open>_id\<close>), or as the mongoose
  document itself, whose JSON carries \<open>_id\<close> only.
\<close>

record http_error =
  message :: string
  code :: "nat option"

definition HttpError :: "string \<Rightarrow> nat \<Rightarrow> http_error" where
  "HttpError m c = \<lparr>message = m, code = Some c\<rparr>"

datatype place_json =
  Place_Object oid place
| Place_Document oid place

datatype body =
  Place_Body place_json
| Places_Body "place_json list"
| Message_Body string

datatype action =
  Respond nat body
| Next http_error
| Uncaught string

definition json_id :: "place_json \<Rightarrow> string option" where
  "json_id pj = (case pj of Place_Object i _ \<Rightarrow> Some (oid_hex i) | Place_Document _ _ \<Rightarrow> None)"

definition answers :: "action list \<Rightarrow> nat" where
  "answers acts = length (filter (\<lambda>a. case a of Uncaught _ \<Rightarrow> False | _ \<Rightarrow> True) acts)"

end
