(* ===== verification/Places_Controller.thy ===== *)
theory Places_Controller
  imports Http
begin

text \<open>
  The five handlers of \<open>src/backend/controllers/places-controllers.js\<close>, one definition
  each, in the file's order.  Each takes the store-failure pattern \<open>fails\<close>, the
  collections \<open>d\<close> and the request's strings, and returns the actions the handler
  performs; the writing handlers also return the collections after the request.
  Collaborators that are not code of the repository are parameters: the verdict of
  \<open>validationResult(req).isEmpty()\<close> (\<open>inputs_ok\<close>), \<open>getCoordinatesForAddress\<close>
  (\<open>geocode\<close>, an error or coordinates), and the ObjectId that \<open>new Place(...)\<close>
  draws (\<open>new_id\<close>).
\<close>

definition getPlaceById :: "faults \<Rightarrow> db \<Rightarrow> string \<Rightarrow> action list" where
  "getPlaceById fails d placeId =
     (case find_place_by_id fails d placeId of
        None \<Rightarrow> [Next (HttpError ''Something went wrong, could not find place!'' 500)]
      | Some None \<Rightarrow> [Next (HttpError ''Could not find a place for the provided id.'' 404)]
      | Some (Some (i, p)) \<Rightarrow> [Respond 200 (Place_Body (Place_Object i p))])"

definition getPlacesByUserId :: "faults \<Rightarrow> db \<Rightarrow> string \<Rightarrow> action list" where
  "getPlacesByUserId fails d userId =
     (case find_user_with_places fails d userId of
        None \<Rightarrow> [Next (HttpError ''Fetching places failed, please try again later'' 500)]
      | Some None \<Rightarrow> [Next (HttpError ''Could not find a places for the provided user id.'' 404)]
      | Some (Some (_, _, ps)) \<Rightarrow>
          (if ps = [] then [Next (HttpError ''Could not find a places for the provided user id.'' 404)]
           else [Respond 200 (Places_Body (map (\<lambda>(i, p). Place_Object i p) ps))]))"

text \<open>
  Lines 99--104 of \<open>createPlace\<close>: a geocoder failure is passed to \<open>next\<close> but does not
  return; the handler goes on with \<open>coordinates\<close> left \<open>undefined\<close>.
\<close>

definition await_coordinates :: "http_error + coords \<Rightarrow> action list \<times> coords option" where
  "await_coordinates r = (case r of Inl e \<Rightarrow> ([Next e], None) | Inr c \<Rightarrow> ([], Some c))"

definition empire_state_image :: string where
  "empire_state_image =
     ''https://upload.wikimedia.org/wikipedia/commons/thumb/d/df/NYC_Empire_State_Building.jpg/640px-NYC_Empire_State_Building.jpg''"

definition new_place :: "string \<Rightarrow> string \<Rightarrow> string \<Rightarrow> coords option \<Rightarrow> oid \<Rightarrow> place" where
  "new_place t desc addr coordinates k =
     \<lparr>title = t, description = desc, address = addr, location = coordinates,
      image = empire_state_image, creator = k\<rparr>"

definition create_writes :: "faults \<Rightarrow> oid \<Rightarrow> place \<Rightarrow> oid \<Rightarrow> user \<Rightarrow> db \<Rightarrow> db attempt" where
  "create_writes fails new_id p k u s =
     do { s1 \<leftarrow> insert_place fails s new_id p;
          update_user fails s1 k (u\<lparr>places := places u @ [new_id]\<rparr>) }"

definition createPlace ::
  "faults \<Rightarrow> (string \<Rightarrow> http_error + coords) \<Rightarrow> bool \<Rightarrow> oid \<Rightarrow> db \<Rightarrow>
   string \<Rightarrow> string \<Rightarrow> string \<Rightarrow> string \<Rightarrow> action list \<times> db" where
  "createPlace fails geocode inputs_ok new_id d t desc addr creator_s =
     (if \<not> inputs_ok
      then ([Next (HttpError ''Invalid inputs passed, please check your data.'' 422)], d)
      else
        (case await_coordinates (geocode addr) of
           (geo_acts, coordinates) \<Rightarrow>
             (case find_user_by_id fails d creator_s of
                None \<Rightarrow> (geo_acts @ [Next (HttpError ''Creating place failed, please try again.'' 500)], d)
              | Some None \<Rightarrow> (geo_acts @ [Next (HttpError ''Could not find user for provided id.'' 404)], d)
              | Some (Some (k, u)) \<Rightarrow>
                  (let createdPlace = new_place t desc addr coordinates k
                   in case run_transaction fails d (create_writes fails new_id createdPlace k u) of
                        None \<Rightarrow>
                          (geo_acts @ [Next (HttpError ''Creating place failed, please try again.'' 500)], d)
                      | Some d' \<Rightarrow>
                          (geo_acts @ [Respond 201 (Place_Body (Place_Document new_id createdPlace))], d')))))"

definition updatePlace ::
  "faults \<Rightarrow> bool \<Rightarrow> db \<Rightarrow> string \<Rightarrow> string \<Rightarrow> string \<Rightarrow> action list \<times> db" where
  "updatePlace fails inputs_ok d placeId t desc =
     (if \<not> inputs_ok
      then ([Next (HttpError ''Invalid inputs passed, please check your data.'' 422)], d)
      else
        (case find_place_by_id fails d placeId of
           None \<Rightarrow> ([Next (HttpError ''Something went wrong, could not update place.'' 500)], d)
         | Some None \<Rightarrow> ([Uncaught ''TypeError: Cannot set property title of null''], d)
         | Some (Some (i, p)) \<Rightarrow>
             (let p' = p\<lparr>title := t, description := desc\<rparr>
              in case update_place fails d i p' of
                   None \<Rightarrow> ([Next (HttpError ''Something went wrong, could not update place.'' 500)], d)
                 | Some d' \<Rightarrow> ([Respond 200 (Place_Body (Place_Object i p'))], d'))))"

text \<open>
  In \<open>deletePlace\<close> the creator is read through the populated reference; a place whose
  creator document is gone has \<open>place.creator = null\<close>, and \<open>place.creator.places\<close>
  throws a TypeError inside the \<open>try\<close> block, after \<open>place.remove\<close>: the transaction
  body fails there.
\<close>

definition delete_writes ::
  "faults \<Rightarrow> oid \<Rightarrow> (oid \<times> user) option \<Rightarrow> db \<Rightarrow> db attempt" where
  "delete_writes fails i c s =
     do { s1 \<leftarrow> remove_place fails s i;
          (k, cu) \<leftarrow> c;
          update_user fails s1 k (cu\<lparr>places := removeAll i (places cu)\<rparr>) }"

definition deletePlace :: "faults \<Rightarrow> db \<Rightarrow> string \<Rightarrow> action list \<times> db" where
  "deletePlace fails d placeId =
     (case find_place_with_creator fails d placeId of
        None \<Rightarrow> ([Next (HttpError ''Something went wrong, could not delete place'' 500)], d)
      | Some None \<Rightarrow> ([Next (HttpError ''Could not find place for this id.'' 404)], d)
      | Some (Some (i, p, c)) \<Rightarrow>
          (case run_transaction fails d (delete_writes fails i c) of
             None \<Rightarrow> ([Next (HttpError ''Something went wrong, could not delete place'' 500)], d)
           | Some d' \<Rightarrow> ([Respond 200 (Message_Body ''Deleted place.'')], d')))"

subsection \<open>An example store\<close>

text \<open>
  One user with no places, and the same store after the place ``Loop'' was linked to
  her; the witnesses below run the handlers on them.
\<close>

definition demo_user_id :: oid where
  "demo_user_id = [1, 2, 3, 4, 5, 6, 7, 8, 9, 10, 11, 12]"

definition demo_place_id :: oid where
  "demo_place_id = [1, 2, 3, 4, 5, 6, 7, 8, 9, 10, 11, 13]"

definition demo_user :: user where
  "demo_user = \<lparr>name = ''Ada'', email = ''ada@example.com'', password = ''secret'',
                user_image = ''ada.png'', places = []\<rparr>"

definition demo_db :: db where
  "demo_db = \<lparr>place_coll = Map.empty, user_coll = [demo_user_id \<mapsto> demo_user]\<rparr>"

definition demo_geocode :: "string \<Rightarrow> http_error + coords" where
  "demo_geocode a = Inr \<lparr>lat = 37, lng = -122\<rparr>"

definition demo_place :: place where
  "demo_place = new_place ''Loop'' ''Campus'' ''1 Infinite Loop'' (Some \<lparr>lat = 37, lng = -122\<rparr>) demo_user_id"

definition demo_db2 :: db where
  "demo_db2 = link_place demo_db demo_place_id demo_place"

subsection \<open>How each handler's outcome decomposes\<close>

lemmas handler_defs = getPlaceById_def getPlacesByUserId_def createPlace_def updatePlace_def
  deletePlace_def await_coordinates_def create_writes_def delete_writes_def new_place_def
  find_user_with_places_def find_place_with_creator_def

lemmas demo_defs = demo_db_def demo_user_def demo_geocode_def demo_place_def demo_db2_def
  empire_state_image_def

lemmas eval_defs = handler_defs find_place_by_id_def find_user_by_id_def await_def no_faults_def
  run_transaction_def insert_place_def update_place_def remove_place_def update_user_def
  place_schema_valid_def link_place_def unlink_place_def Let_def

lemma demo_ids [simp]:
  "length demo_user_id = 12" "length demo_place_id = 12" "demo_place_id \<noteq> demo_user_id"
  by (simp_all add: demo_user_id_def demo_place_id_def)

lemma demo_db_consistent: "db_consistent demo_db"
  by (simp add: db_consistent_def demo_defs user_linked_def)

lemma demo_db2_consistent: "db_consistent demo_db2"
proof -
  have "place_coll demo_db demo_place_id = None" "user_coll demo_db (creator demo_place) \<noteq> None"
    by (simp_all add: demo_defs new_place_def)
  with demo_db_consistent show ?thesis
    unfolding demo_db2_def by (rule link_place_consistent)
qed

lemma create_writes_link:
  assumes "create_writes fails new_id p k u s = Some s'" and "user_coll s k = Some u" and "creator p = k"
  shows "s' = link_place s new_id p \<and> place_coll s new_id = None"
  using assms by (auto simp: create_writes_def link_place_def store_simps)

lemma createPlace_success_cases:
  assumes "createPlace fails geocode inputs_ok new_id d t desc addr c = (acts, d')"
  defines "p \<equiv> \<lambda>k. new_place t desc addr (snd (await_coordinates (geocode addr))) k"
  shows "(d' = d \<and> (\<forall>b. Respond 201 b \<notin> set acts)) \<or>
         (\<exists>k u. find_user_by_id fails d c = Some (Some (k, u)) \<and>
            run_transaction fails d (create_writes fails new_id (p k) k u) = Some d' \<and>
            Respond 201 (Place_Body (Place_Document new_id (p k))) \<in> set acts)"
  using assms
  by (auto simp: createPlace_def await_coordinates_def Let_def split: if_splits sum.splits option.splits)

lemma delete_writes_unlink:
  assumes "delete_writes fails i c s = Some s'" and "place_coll s i = Some p"
    and "c = map_option (Pair (creator p)) (user_coll s (creator p))"
  shows "s' = unlink_place s i"
  using assms by (auto simp: delete_writes_def unlink_place_def store_simps)

lemma deletePlace_success_cases:
  assumes "deletePlace fails d s = (acts, d')"
  shows "(d' = d \<and> (\<forall>b. Respond 200 b \<notin> set acts)) \<or>
         (\<exists>i p. cast_oid s = Some i \<and> place_coll d i = Some p \<and>
            run_transaction fails d
              (delete_writes fails i (map_option (Pair (creator p)) (user_coll d (creator p)))) = Some d' \<and>
            acts = [Respond 200 (Message_Body ''Deleted place.'')])"
  using assms
  by (auto simp: deletePlace_def find_place_with_creator_def find_place_by_id_def await_def
           split: option.splits if_splits)

lemma updatePlace_success_cases:
  assumes "updatePlace fails inputs_ok d s t desc = (acts, d')"
  shows "d' = d \<or> (\<exists>i. cast_oid s = Some i \<and> place_coll d i \<noteq> None \<and> d' = edit_place d i t desc)"
  using assms
  by (auto simp: updatePlace_def edit_place_def find_place_by_id_def await_def store_simps Let_def
           split: option.splits if_splits)

lemma createPlace_link_or_unchanged:
  assumes "createPlace fails geocode inputs_ok new_id d t desc addr c = (acts, d')"
  shows "(d' = d \<and> (\<forall>b. Respond 201 b \<notin> set acts)) \<or>
         (\<exists>p. place_coll d new_id = None \<and> user_coll d (creator p) \<noteq> None \<and>
            d' = link_place d new_id p \<and> Respond 201 (Place_Body (Place_Document new_id p)) \<in> set acts)"
  using createPlace_success_cases [OF assms]
proof
  let ?p = "\<lambda>k. new_place t desc addr (snd (await_coordinates (geocode addr))) k"
  assume "\<exists>k u. find_user_by_id fails d c = Some (Some (k, u)) \<and>
            run_transaction fails d (create_writes fails new_id (?p k) k u) = Some d' \<and>
            Respond 201 (Place_Body (Place_Document new_id (?p k))) \<in> set acts"
  then obtain k u where u: "user_coll d k = Some u"
    and w: "create_writes fails new_id (?p k) k u d = Some d'"
    and r: "Respond 201 (Place_Body (Place_Document new_id (?p k))) \<in> set acts"
    by (auto simp: store_simps)
  have k: "creator (?p k) = k" by (simp add: new_place_def)
  from create_writes_link [OF w u k] u k r show ?thesis
    by (intro disjI2 exI [of _ "?p k"]) simp
qed simp

lemma deletePlace_unlink_or_unchanged:
  assumes "deletePlace fails d s = (acts, d')"
  shows "(d' = d \<and> (\<forall>b. Respond 200 b \<notin> set acts)) \<or>
         (\<exists>i. cast_oid s = Some i \<and> place_coll d i \<noteq> None \<and> d' = unlink_place d i \<and>
            acts = [Respond 200 (Message_Body ''Deleted place.'')])"
  using deletePlace_success_cases [OF assms]
proof
  assume "\<exists>i p. cast_oid s = Some i \<and> place_coll d i = Some p \<and>
            run_transaction fails d
              (delete_writes fails i (map_option (Pair (creator p)) (user_coll d (creator p)))) = Some d' \<and>
            acts = [Respond 200 (Message_Body ''Deleted place.'')]"
  then obtain i p where i: "cast_oid s = Some i" and p: "place_coll d i = Some p"
    and w: "delete_writes fails i (map_option (Pair (creator p)) (user_coll d (creator p))) d = Some d'"
    and a: "acts = [Respond 200 (Message_Body ''Deleted place.'')]"
    by (auto simp: store_simps)
  from delete_writes_unlink [OF w p refl] i p a show ?thesis by auto
qed simp

lemma createPlace_respond_shape:
  assumes "Respond n b \<in> set (fst (createPlace fails geocode ok new_id d t desc addr c))"
  shows "\<exists>k u. find_user_by_id fails d c = Some (Some (k, u)) \<and> n = 201 \<and>
           b = Place_Body (Place_Document new_id (new_place t desc addr (snd (await_coordinates (geocode addr))) k))"
  using assms
  by (auto simp: createPlace_def await_coordinates_def Let_def split: if_splits option.splits sum.splits)

subsection \<open>Refinement of the abstract place service\<close>

text \<open>
  C3: \<open>createPlace\<close> implements the atomic \<open>link_place\<close>: whatever the inputs and
  whichever store calls fail, either the collections are left as they were and no 201
  answer is given, or the new id was free, the creator exists, the collections after
  the request are exactly \<open>link_place\<close> of the place built from the request, and the
  handler answers 201 with that place.
\<close>

theorem createPlace_refines_link_place:
  assumes "createPlace fails geocode inputs_ok new_id d t desc addr c = (acts, d')"
  shows "(d' = d \<and> (\<forall>b. Respond 201 b \<notin> set acts)) \<or>
         (\<exists>p. place_coll d new_id = None \<and> user_coll d (creator p) \<noteq> None \<and>
            d' = link_place d new_id p \<and> Respond 201 (Place_Body (Place_Document new_id p)) \<in> set acts)"
  using assms by (rule createPlace_link_or_unchanged)

theorem createPlace_refines_link_place_witness:
  "createPlace no_faults demo_geocode True demo_place_id demo_db ''Loop'' ''Campus'' ''1 Infinite Loop'' (oid_hex demo_user_id)
     = ([Respond 201 (Place_Body (Place_Document demo_place_id demo_place))], demo_db2) \<and>
   (demo_db2 = demo_db \<and> (\<forall>b. Respond 201 b \<notin> set [Respond 201 (Place_Body (Place_Document demo_place_id demo_place))]) \<or>
    (\<exists>p. place_coll demo_db demo_place_id = None \<and> user_coll demo_db (creator p) \<noteq> None \<and>
       demo_db2 = link_place demo_db demo_place_id p \<and>
       Respond 201 (Place_Body (Place_Document demo_place_id p)) \<in> set [Respond 201 (Place_Body (Place_Document demo_place_id demo_place))]))"
proof -
  have run: "createPlace no_faults demo_geocode True demo_place_id demo_db ''Loop'' ''Campus'' ''1 Infinite Loop'' (oid_hex demo_user_id)
     = ([Respond 201 (Place_Body (Place_Document demo_place_id demo_place))], demo_db2)"
    by (simp add: eval_defs demo_defs)
  show ?thesis using run createPlace_refines_link_place [OF run] by blast
qed

text \<open>
  C4: \<open>deletePlace\<close> implements the atomic \<open>unlink_place\<close>: either nothing changes and
  no 200 answer is given, or the requested id casts to a stored place, the collections
  after the request are exactly \<open>unlink_place\<close> of it, and the only answer is
  \<open>200 {message: "Deleted place."}\<close>.
\<close>

theorem deletePlace_refines_unlink_place:
  assumes "deletePlace fails d s = (acts, d')"
  shows "(d' = d \<and> (\<forall>b. Respond 200 b \<notin> set acts)) \<or>
         (\<exists>i. cast_oid s = Some i \<and> place_coll d i \<noteq> None \<and> d' = unlink_place d i \<and>
            acts = [Respond 200 (Message_Body ''Deleted place.'')])"
  using assms by (rule deletePlace_unlink_or_unchanged)

theorem deletePlace_refines_unlink_place_witness:
  "deletePlace no_faults demo_db2 (oid_hex demo_place_id)
     = ([Respond 200 (Message_Body ''Deleted place.'')], unlink_place demo_db2 demo_place_id) \<and>
   (unlink_place demo_db2 demo_place_id = demo_db2 \<and> (\<forall>b. Respond 200 b \<notin> set [Respond 200 (Message_Body ''Deleted place.'')]) \<or>
    (\<exists>i. cast_oid (oid_hex demo_place_id) = Some i \<and> place_coll demo_db2 i \<noteq> None \<and>
       unlink_place demo_db2 demo_place_id = unlink_place demo_db2 i \<and>
       [Respond 200 (Message_Body ''Deleted place.'')] = [Respond 200 (Message_Body ''Deleted place.'')]))"
proof -
  have run: "deletePlace no_faults demo_db2 (oid_hex demo_place_id)
     = ([Respond 200 (Message_Body ''Deleted place.'')], unlink_place demo_db2 demo_place_id)"
    by (simp add: eval_defs demo_defs)
  show ?thesis using run deletePlace_refines_unlink_place [OF run] by blast
qed

subsection \<open>The place/user invariant across requests\<close>

text \<open>
  C1: \<open>createPlace\<close> keeps the place/user consistency invariant, for every request and
  every pattern of store failures.
\<close>

theorem createPlace_preserves_consistency:
  "db_consistent d \<Longrightarrow> db_consistent (snd (createPlace fails geocode inputs_ok new_id d t desc addr c))"
  using createPlace_link_or_unchanged [of fails geocode inputs_ok new_id d t desc addr c
      "fst (createPlace fails geocode inputs_ok new_id d t desc addr c)"
      "snd (createPlace fails geocode inputs_ok new_id d t desc addr c)"]
  by (auto intro!: link_place_consistent)

theorem createPlace_preserves_consistency_witness:
  "db_consistent demo_db \<and>
   db_consistent (snd (createPlace no_faults demo_geocode True demo_place_id demo_db ''Loop'' ''Campus''
                         ''1 Infinite Loop'' (oid_hex demo_user_id)))"
  using demo_db_consistent createPlace_preserves_consistency [OF demo_db_consistent] by blast

text \<open>
  C2: \<open>deletePlace\<close> keeps the place/user consistency invariant.
\<close>

theorem deletePlace_preserves_consistency:
  "db_consistent d \<Longrightarrow> db_consistent (snd (deletePlace fails d s))"
  using deletePlace_unlink_or_unchanged [of fails d s "fst (deletePlace fails d s)" "snd (deletePlace fails d s)"]
  by (auto intro: unlink_place_consistent)

theorem deletePlace_preserves_consistency_witness:
  "db_consistent demo_db2 \<and> db_consistent (snd (deletePlace no_faults demo_db2 (oid_hex demo_place_id)))"
  using demo_db2_consistent deletePlace_preserves_consistency [OF demo_db2_consistent] by blast

text \<open>
  C13: \<open>updatePlace\<close> keeps the place/user consistency invariant (it never touches a
  creator or a user's list).
\<close>

theorem updatePlace_preserves_consistency:
  "db_consistent d \<Longrightarrow> db_consistent (snd (updatePlace fails inputs_ok d s t desc))"
  using updatePlace_success_cases [of fails inputs_ok d s t desc
      "fst (updatePlace fails inputs_ok d s t desc)" "snd (updatePlace fails inputs_ok d s t desc)"]
  by (auto intro: edit_place_consistent)

theorem updatePlace_preserves_consistency_witness:
  "db_consistent demo_db2 \<and>
   db_consistent (snd (updatePlace no_faults True demo_db2 (oid_hex demo_place_id) ''Loop 2'' ''New campus''))"
  using demo_db2_consistent updatePlace_preserves_consistency [OF demo_db2_consistent] by blast

subsection \<open>What a successful create or delete leaves behind\<close>

text \<open>
  C5: after a create that answers 201, the new place is stored and its creator's place
  list holds the new id exactly once (spec section 8, first property).
\<close>

theorem createPlace_lists_new_place_once:
  assumes c: "db_consistent d"
    and eq: "createPlace fails geocode inputs_ok new_id d t desc addr cr = (acts, d')"
    and ok: "Respond 201 b \<in> set acts"
  shows "\<exists>p u. place_coll d' new_id = Some p \<and> user_coll d' (creator p) = Some u \<and>
           count_list (places u) new_id = 1"
proof -
  from createPlace_link_or_unchanged [OF eq] ok obtain p where
    fresh: "place_coll d new_id = None" and owner: "user_coll d (creator p) \<noteq> None"
    and d': "d' = link_place d new_id p"
    by blast
  then obtain u where u: "user_coll d' (creator p) = Some u" and mem: "new_id \<in> set (places u)"
    by (auto simp: link_place_def)
  have "db_consistent d'" using link_place_consistent [OF c fresh owner] d' by simp
  with u have "distinct (places u)" by (auto dest: db_consistent_user)
  then have "count_list (places u) new_id = 1" using mem by (rule count_list_distinct_mem)
  with u d' show ?thesis by (auto simp: link_place_def)
qed

theorem createPlace_lists_new_place_once_witness:
  "db_consistent demo_db \<and>
   createPlace no_faults demo_geocode True demo_place_id demo_db ''Loop'' ''Campus'' ''1 Infinite Loop'' (oid_hex demo_user_id)
     = ([Respond 201 (Place_Body (Place_Document demo_place_id demo_place))], demo_db2) \<and>
   Respond 201 (Place_Body (Place_Document demo_place_id demo_place))
     \<in> set [Respond 201 (Place_Body (Place_Document demo_place_id demo_place))] \<and>
   (\<exists>p u. place_coll demo_db2 demo_place_id = Some p \<and> user_coll demo_db2 (creator p) = Some u \<and>
      count_list (places u) demo_place_id = 1)"
proof -
  have run: "createPlace no_faults demo_geocode True demo_place_id demo_db ''Loop'' ''Campus'' ''1 Infinite Loop'' (oid_hex demo_user_id)
     = ([Respond 201 (Place_Body (Place_Document demo_place_id demo_place))], demo_db2)"
    by (simp add: eval_defs demo_defs)
  have r: "Respond 201 (Place_Body (Place_Document demo_place_id demo_place))
     \<in> set [Respond 201 (Place_Body (Place_Document demo_place_id demo_place))]" by simp
  show ?thesis using demo_db_consistent run r createPlace_lists_new_place_once [OF demo_db_consistent run r] by blast
qed

text \<open>
  C6: after a delete that answers 200, the place is gone and no user's place list
  mentions it any more (spec section 8, second property).
\<close>

theorem deletePlace_detaches_place:
  assumes c: "db_consistent d"
    and eq: "deletePlace fails d s = (acts, d')"
    and ok: "Respond 200 b \<in> set acts"
  shows "\<exists>i. cast_oid s = Some i \<and> place_coll d' i = None \<and>
           (\<forall>k u. user_coll d' k = Some u \<longrightarrow> i \<notin> set (places u))"
proof -
  from deletePlace_unlink_or_unchanged [OF eq] ok obtain i where
    i: "cast_oid s = Some i" and present: "place_coll d i \<noteq> None" and d': "d' = unlink_place d i"
    by blast
  have gone: "place_coll d' i = None" using present d' by (auto simp: unlink_place_def)
  have "db_consistent d'" using unlink_place_consistent [OF c] d' by simp
  then have "i \<notin> set (places u)" if "user_coll d' k = Some u" for k u
    using gone that by (fastforce dest: db_consistent_user)
  with i gone show ?thesis by blast
qed

theorem deletePlace_detaches_place_witness:
  "db_consistent demo_db2 \<and>
   deletePlace no_faults demo_db2 (oid_hex demo_place_id)
     = ([Respond 200 (Message_Body ''Deleted place.'')], unlink_place demo_db2 demo_place_id) \<and>
   (\<exists>i. cast_oid (oid_hex demo_place_id) = Some i \<and> place_coll (unlink_place demo_db2 demo_place_id) i = None \<and>
      (\<forall>k u. user_coll (unlink_place demo_db2 demo_place_id) k = Some u \<longrightarrow> i \<notin> set (places u)))"
proof -
  have run: "deletePlace no_faults demo_db2 (oid_hex demo_place_id)
     = ([Respond 200 (Message_Body ''Deleted place.'')], unlink_place demo_db2 demo_place_id)"
    by (simp add: eval_defs demo_defs)
  have r: "Respond 200 (Message_Body ''Deleted place.'') \<in> set [Respond 200 (Message_Body ''Deleted place.'')]"
    by simp
  show ?thesis using demo_db2_consistent run deletePlace_detaches_place [OF demo_db2_consistent run r] by blast
qed

subsection \<open>All or nothing\<close>

text \<open>
  C7: if saving the user (the second write of the create transaction) fails, the place
  written first does not persist: the collections are exactly as before the request
  (spec section 8, atomicity).
\<close>

theorem createPlace_user_save_fails_unchanged:
  assumes "fails Save_User"
  shows "snd (createPlace fails geocode inputs_ok new_id d t desc addr cr) = d"
  using createPlace_success_cases [of fails geocode inputs_ok new_id d t desc addr cr
      "fst (createPlace fails geocode inputs_ok new_id d t desc addr cr)"
      "snd (createPlace fails geocode inputs_ok new_id d t desc addr cr)"] assms
  by (auto simp: create_writes_def store_simps)

theorem createPlace_user_save_fails_unchanged_witness:
  "(\<lambda>c. c = Save_User) Save_User \<and>
   snd (createPlace (\<lambda>c. c = Save_User) demo_geocode True demo_place_id demo_db ''Loop'' ''Campus''
          ''1 Infinite Loop'' (oid_hex demo_user_id)) = demo_db"
  using createPlace_user_save_fails_unchanged [of "\<lambda>c. c = Save_User"] by simp

text \<open>
  C8: if saving the creator fails during a delete, the removed place is not removed:
  the collections are exactly as before the request.
\<close>

theorem deletePlace_user_save_fails_unchanged:
  assumes "fails Save_User"
  shows "snd (deletePlace fails d s) = d"
  using deletePlace_success_cases [of fails d s "fst (deletePlace fails d s)" "snd (deletePlace fails d s)"] assms
  by (auto simp: delete_writes_def store_simps)

theorem deletePlace_user_save_fails_unchanged_witness:
  "(\<lambda>c. c = Save_User) Save_User \<and>
   snd (deletePlace (\<lambda>c. c = Save_User) demo_db2 (oid_hex demo_place_id)) = demo_db2"
  using deletePlace_user_save_fails_unchanged [of "\<lambda>c. c = Save_User"] by simp

subsection \<open>Reads and edits\<close>

text \<open>
  C9: \<open>updatePlace\<close> never changes a place's address, location or creator, nor any
  user document, whatever the request body holds (spec section 8).
\<close>

theorem updatePlace_keeps_address_location:
  "map_option address (place_coll (snd (updatePlace fails inputs_ok d s t desc)) j) = map_option address (place_coll d j) \<and>
   map_option location (place_coll (snd (updatePlace fails inputs_ok d s t desc)) j) = map_option location (place_coll d j) \<and>
   map_option creator (place_coll (snd (updatePlace fails inputs_ok d s t desc)) j) = map_option creator (place_coll d j) \<and>
   user_coll (snd (updatePlace fails inputs_ok d s t desc)) = user_coll d"
  using updatePlace_success_cases [of fails inputs_ok d s t desc
      "fst (updatePlace fails inputs_ok d s t desc)" "snd (updatePlace fails inputs_ok d s t desc)"]
  by (auto simp: edit_place_def split: option.splits)

text \<open>
  C10: a user that exists but has no (resolvable) places gets 404, not an empty list
  (spec section 4.1 and 8).
\<close>

theorem getPlacesByUserId_no_places_not_found:
  assumes "cast_oid s = Some k" and "\<not> fails Find_User" and "user_coll d k = Some u"
    and "populate_places d (places u) = []"
  shows "getPlacesByUserId fails d s = [Next (HttpError ''Could not find a places for the provided user id.'' 404)]"
  using assms by (simp add: getPlacesByUserId_def find_user_with_places_def find_user_by_id_def await_def)

theorem getPlacesByUserId_no_places_not_found_witness:
  "cast_oid (oid_hex demo_user_id) = Some demo_user_id \<and> \<not> no_faults Find_User \<and>
   user_coll demo_db demo_user_id = Some demo_user \<and> populate_places demo_db (places demo_user) = [] \<and>
   getPlacesByUserId no_faults demo_db (oid_hex demo_user_id)
     = [Next (HttpError ''Could not find a places for the provided user id.'' 404)]"
proof -
  have h: "cast_oid (oid_hex demo_user_id) = Some demo_user_id" "\<not> no_faults Find_User"
    "user_coll demo_db demo_user_id = Some demo_user" "populate_places demo_db (places demo_user) = []"
    by (simp_all add: demo_defs no_faults_def populate_places_def)
  show ?thesis
    using h getPlacesByUserId_no_places_not_found [where fails = no_faults and d = demo_db, OF h]
    by blast
qed

subsection \<open>Paths where the code does not do what the spec says\<close>

text \<open>
  C11: \<open>updatePlace\<close> has no null check after \<open>Place.findById\<close>: for a well-formed id
  with no place, \<open>place.title = title\<close> throws a TypeError outside any \<open>try\<close>, the
  async handler's promise rejects, and the client gets no answer at all (the spec
  says 404).
\<close>

theorem updatePlace_missing_place_no_answer:
  assumes "inputs_ok" and "cast_oid s = Some i" and "\<not> fails Find_Place" and "place_coll d i = None"
  shows "updatePlace fails inputs_ok d s t desc = ([Uncaught ''TypeError: Cannot set property title of null''], d) \<and>
         answers (fst (updatePlace fails inputs_ok d s t desc)) = 0"
  using assms by (simp add: updatePlace_def find_place_by_id_def await_def answers_def)

theorem updatePlace_missing_place_no_answer_witness:
  "True \<and> cast_oid (oid_hex demo_place_id) = Some demo_place_id \<and> \<not> no_faults Find_Place \<and>
   place_coll demo_db demo_place_id = None \<and>
   updatePlace no_faults True demo_db (oid_hex demo_place_id) ''T'' ''Desc''
     = ([Uncaught ''TypeError: Cannot set property title of null''], demo_db) \<and>
   answers (fst (updatePlace no_faults True demo_db (oid_hex demo_place_id) ''T'' ''Desc'')) = 0"
proof -
  have h: "True" "cast_oid (oid_hex demo_place_id) = Some demo_place_id" "\<not> no_faults Find_Place"
    "place_coll demo_db demo_place_id = None"
    by (simp_all add: demo_defs no_faults_def)
  show ?thesis
    using h updatePlace_missing_place_no_answer [where fails = no_faults and d = demo_db, OF h]
    by blast
qed

text \<open>
  C12: a geocoder failure in \<open>createPlace\<close> is passed to \<open>next\<close> without \<open>return\<close>; the
  handler goes on and, since the place it builds has no location, ends by calling
  \<open>next\<close> a second time: one request passes two errors to Express, and the
  collections are unchanged.  (What Express does with the second call is in the root
  theory, C30: it reaches the final handler, not the application's error handler.)
\<close>

theorem createPlace_geocode_failure_answers_twice:
  assumes "inputs_ok" and "geocode addr = Inl e"
  shows "\<exists>e'. createPlace fails geocode inputs_ok new_id d t desc addr cr = ([Next e, Next e'], d)"
  using assms
  by (auto simp: createPlace_def await_coordinates_def run_transaction_def create_writes_def
                 insert_place_def place_schema_valid_def new_place_def
           split: option.splits)

theorem createPlace_geocode_failure_answers_twice_witness:
  "True \<and> (\<lambda>a. Inl (HttpError ''Could not find location for the specified address.'' 422)) ''Nowhere''
     = (Inl (HttpError ''Could not find location for the specified address.'' 422) :: http_error + coords) \<and>
   (\<exists>e'. createPlace no_faults (\<lambda>a. Inl (HttpError ''Could not find location for the specified address.'' 422))
           True demo_place_id demo_db ''Loop'' ''Campus'' ''Nowhere'' (oid_hex demo_user_id)
      = ([Next (HttpError ''Could not find location for the specified address.'' 422), Next e'], demo_db))"
  using createPlace_geocode_failure_answers_twice
    [of True "\<lambda>a. Inl (HttpError ''Could not find location for the specified address.'' 422)" "''Nowhere''"]
  by simp

end
