(* ===== verification/App.thy ===== *)
theory App
  imports Places_Controller "HOL-Library.AList"
begin

text \<open>
  The Express application of \<open>src/backend/app.js\<close>: the middleware stack a request
  goes through (lines 11--38: body parsing, the CORS headers, the places and users
  routers, the not-found middleware, the error-handling middleware), Express's dispatch
  over that stack, and the server's startup (lines 41--51).

  The response object is a record of what the client can observe: the headers set (an
  association list, \<open>res.setHeader\<close> replaces a header by name), the first status and
  payload sent (a JSON body from \<open>res.json\<close> or a text body from \<open>res.send\<close>), whether
  headers were sent (Node's \<open>res.headersSent\<close>), the \<open>ERR_HTTP_HEADERS_SENT\<close> exceptions
  raised by attempts to send a second time, and whether the socket was destroyed.
  JavaScript's property lookup is explicit: \<open>res_prop res k\<close> is the truth value of
  \<open>res[k]\<close>, and every property other than \<open>headersSent\<close> reads as \<open>undefined\<close>.

  Express 4's dispatch is modelled as it is written in \<open>express/lib/router\<close>: the
  application's stack is a list of layers walked in order; a layer's \<open>next()\<close> goes on to
  the next layer, \<open>next(err)\<close> switches to error mode, in which only four-argument
  handlers run; a middleware that throws synchronously is turned into \<open>next(err)\<close>;
  past the end of the stack the final handler (the \<open>finalhandler\<close> package) answers.
  The cursor is shared: a route handler that calls \<open>next(err)\<close> a second time resumes
  the walk where the first call left it, that is past the error handler, so the second
  error reaches the final handler, which destroys the socket once headers are out.
  Mount paths and route paths match case-insensitively (the default of Express and
  \<open>path-to-regexp\<close>), a request path is given as its segments, without the leading
  slash and without the one trailing slash non-strict routing ignores.  The places
  router (\<open>routes/places-routes.js\<close>, not under \<open>src/\<close>) is modelled from the spec's route
  table in its order, with Express's automatic answer to \<open>OPTIONS\<close> (the \<open>Allow\<close> list of
  the routes matching the path) and \<open>HEAD\<close> served by \<open>GET\<close> routes (Node then
  omits the body on the wire; the model records what the handler sent); its validators'
  verdict travels with the request.  The users router is not modelled: it is a
  parameter, \<open>None\<close> when no users route handles the request.
\<close>

datatype payload = Json body | Text string

record response =
  res_headers :: "(string \<times> string) list"
  sent :: "(nat \<times> payload) option"
  headersSent :: bool
  send_errors :: "string list"
  destroyed :: bool

definition fresh_response :: response where
  "fresh_response = \<lparr>res_headers = [], sent = None, headersSent = False, send_errors = [],
                     destroyed = False\<rparr>"

text \<open>Headers are out exactly when a body was sent: every response the model builds keeps this.\<close>

definition res_coherent :: "response \<Rightarrow> bool" where
  "res_coherent res \<longleftrightarrow> (headersSent res \<longleftrightarrow> sent res \<noteq> None)"

definition res_prop :: "response \<Rightarrow> string \<Rightarrow> bool" where
  "res_prop res k = (if k = ''headersSent'' then headersSent res else False)"

definition set_header :: "string \<Rightarrow> string \<Rightarrow> response \<Rightarrow> response" where
  "set_header k v res = res\<lparr>res_headers := AList.update k v (res_headers res)\<rparr>"

text \<open>\<open>res.status(n).json(b)\<close> and \<open>res.send(s)\<close>: the first call sends; a later one throws.\<close>

definition send_json :: "nat \<Rightarrow> body \<Rightarrow> response \<Rightarrow> response" where
  "send_json n b res =
     (if headersSent res then res\<lparr>send_errors := send_errors res @ [''ERR_HTTP_HEADERS_SENT'']\<rparr>
      else res\<lparr>sent := Some (n, Json b), headersSent := True\<rparr>)"

definition send_text :: "nat \<Rightarrow> string \<Rightarrow> response \<Rightarrow> response" where
  "send_text n s res =
     (if headersSent res then res\<lparr>send_errors := send_errors res @ [''ERR_HTTP_HEADERS_SENT'']\<rparr>
      else res\<lparr>sent := Some (n, Text s), headersSent := True\<rparr>)"

text \<open>Lines 14--21: the CORS middleware's three \<open>res.setHeader\<close> calls, in order.\<close>

definition cors_headers :: "(string \<times> string) list" where
  "cors_headers =
     [(''Access-Control-Allow-Origin'', ''*''),
      (''Access-Control-Allow-Headers'', ''Origin, X-Requested-With, Content-Type, Accept, Authorization''),
      (''Access-Control-Allow-Methods'', ''GET, POST, PATCH, DELETE'')]"

definition cors :: "response \<Rightarrow> response" where
  "cors res = foldl (\<lambda>r (k, v). set_header k v r) res cors_headers"

text \<open>
  Lines 32--38: the error-handling middleware.  The guard reads \<open>res.headerSent\<close>,
  a property Node's response does not have.  \<open>error.code || 500\<close> and
  \<open>error.message || "An Unknown Error occured!"\<close> replace a missing, zero or empty
  value.  When the guard holds the handler returns \<open>next(error)\<close> and leaves the
  response as it is; the dispatch below passes the error on.
\<close>

definition error_status :: "http_error \<Rightarrow> nat" where
  "error_status e = (case code e of None \<Rightarrow> 500 | Some c \<Rightarrow> if c = 0 then 500 else c)"

definition error_text :: "http_error \<Rightarrow> string" where
  "error_text e = (if message e = [] then ''An Unknown Error occured!'' else message e)"

definition error_handler :: "http_error \<Rightarrow> response \<Rightarrow> response" where
  "error_handler e res =
     (if res_prop res ''headerSent'' then res
      else send_json (error_status e) (Message_Body (error_text e)) res)"

text \<open>Lines 26--29: the not-found middleware throws this error.\<close>

definition route_not_found :: http_error where
  "route_not_found = HttpError ''Could not find this route :('' 404"

text \<open>
  Line 11: \<open>bodyParser.json()\<close> rejects a malformed JSON body with the parser's
  \<open>SyntaxError\<close>, decorated with \<open>status = 400\<close> but with no \<open>code\<close> property.
\<close>

definition body_parse_error :: "string \<Rightarrow> http_error" where
  "body_parse_error m = \<lparr>message = m, code = None\<rparr>"

subsection \<open>Requests and routes\<close>

datatype http_method = GET | HEAD | POST | PATCH | DELETE | OPTIONS | PUT

fun method_name :: "http_method \<Rightarrow> string" where
  "method_name GET = ''GET''"
| "method_name HEAD = ''HEAD''"
| "method_name POST = ''POST''"
| "method_name PATCH = ''PATCH''"
| "method_name DELETE = ''DELETE''"
| "method_name OPTIONS = ''OPTIONS''"
| "method_name PUT = ''PUT''"

record request =
  req_method :: http_method
  req_path :: "string list"
  req_body_error :: "string option"
  req_title :: string
  req_description :: string
  req_address :: string
  req_creator :: string
  req_valid :: bool

record app_env =
  env_fails :: faults
  env_geocode :: "string \<Rightarrow> http_error + coords"
  env_new_id :: oid
  env_users :: "request \<Rightarrow> db \<Rightarrow> (action list \<times> db) option"

text \<open>
  Express answers a request that reaches the end of the stack with the final handler:
  with an error and headers already out it destroys the socket; with an error before
  any answer it sends the error page (status 500, since an \<open>HttpError\<close> carries no
  \<open>status\<close> property; the page text is the production one); without an error it sends
  404 \<open>Cannot METHOD path\<close>.
\<close>

definition path_string :: "string list \<Rightarrow> string" where
  "path_string p = (if p = [] then ''/'' else concat (map (\<lambda>s. ''/'' @ s) p))"

definition final_handler :: "http_error option \<Rightarrow> request \<Rightarrow> response \<Rightarrow> response" where
  "final_handler err req res =
     (case err of
        None \<Rightarrow> (if headersSent res then res
                 else send_text 404 (''Cannot '' @ method_name (req_method req) @ '' '' @ path_string (req_path req)) res)
      | Some e \<Rightarrow> (if headersSent res then res\<lparr>destroyed := True\<rparr>
                   else send_text 500 ''Internal Server Error'' res))"

text \<open>Case-insensitive comparison of path segments (ASCII letters fold; paths are URL-encoded).\<close>

definition lower_ascii :: "char \<Rightarrow> char" where
  "lower_ascii c = (let n = of_char c :: nat in if 65 \<le> n \<and> n \<le> 90 then char_of (n + 32) else c)"

definition ci_eq :: "string \<Rightarrow> string \<Rightarrow> bool" where
  "ci_eq s t \<longleftrightarrow> map lower_ascii s = map lower_ascii t"

datatype place_route =
  Get_Place string
| Get_User_Places string
| Create_Place
| Update_Place string
| Delete_Place string

text \<open>
  The places router's stack (spec section 6, in its order): the path of each route, the
  method it is registered for, and the controller it runs with the path parameter.
\<close>

datatype route_path = Root_Path | Pid_Path | User_Path

fun route_param :: "route_path \<Rightarrow> string list \<Rightarrow> string option" where
  "route_param Root_Path rest = (if rest = [] then Some [] else None)"
| "route_param Pid_Path rest = (case rest of [s] \<Rightarrow> if s = [] then None else Some s | _ \<Rightarrow> None)"
| "route_param User_Path rest =
     (case rest of [s, t] \<Rightarrow> if ci_eq s ''user'' \<and> t \<noteq> [] then Some t else None | _ \<Rightarrow> None)"

definition places_stack :: "(route_path \<times> http_method \<times> (string \<Rightarrow> place_route)) list" where
  "places_stack =
     [(Pid_Path, GET, Get_Place), (User_Path, GET, Get_User_Places), (Root_Path, POST, \<lambda>_. Create_Place),
      (Pid_Path, PATCH, Update_Place), (Pid_Path, DELETE, Delete_Place)]"

text \<open>A route registered for \<open>GET\<close> also handles \<open>HEAD\<close> (\<open>Route._handles_method\<close>).\<close>

definition handles :: "http_method \<Rightarrow> http_method \<Rightarrow> bool" where
  "handles rm m \<longleftrightarrow> rm = m \<or> (rm = GET \<and> m = HEAD)"

definition places_route :: "http_method \<Rightarrow> string list \<Rightarrow> place_route option" where
  "places_route m rest =
     (case List.find (\<lambda>(rp, rm, h). handles rm m \<and> route_param rp rest \<noteq> None) places_stack of
        None \<Rightarrow> None
      | Some (rp, rm, h) \<Rightarrow> map_option h (route_param rp rest))"

text \<open>
  The automatic \<open>OPTIONS\<close> answer: the methods of every route whose path matches
  (\<open>Route._options\<close> adds \<open>HEAD\<close> after \<open>GET\<close>), appended without repetition, joined by commas.
\<close>

definition route_method_names :: "http_method \<Rightarrow> string list" where
  "route_method_names rm = (if rm = GET then [''GET'', ''HEAD''] else [method_name rm])"

definition append_methods :: "string list \<Rightarrow> string list \<Rightarrow> string list" where
  "append_methods acc ms = foldl (\<lambda>a m. if m \<in> set a then a else a @ [m]) acc ms"

definition route_methods :: "string list \<Rightarrow> string list" where
  "route_methods rest =
     foldl append_methods [] [route_method_names rm. (rp, rm, h) \<leftarrow> places_stack, route_param rp rest \<noteq> None]"

fun comma_join :: "string list \<Rightarrow> string" where
  "comma_join [] = []"
| "comma_join [m] = m"
| "comma_join (m # ms) = m @ '','' @ comma_join ms"

definition run_place_route :: "app_env \<Rightarrow> db \<Rightarrow> request \<Rightarrow> place_route \<Rightarrow> action list \<times> db" where
  "run_place_route env d req r =
     (case r of
        Get_Place pid \<Rightarrow> (getPlaceById (env_fails env) d pid, d)
      | Get_User_Places uid \<Rightarrow> (getPlacesByUserId (env_fails env) d uid, d)
      | Create_Place \<Rightarrow>
          createPlace (env_fails env) (env_geocode env) (req_valid req) (env_new_id env) d
            (req_title req) (req_description req) (req_address req) (req_creator req)
      | Update_Place pid \<Rightarrow>
          updatePlace (env_fails env) (req_valid req) d pid (req_title req) (req_description req)
      | Delete_Place pid \<Rightarrow> deletePlace (env_fails env) d pid)"

text \<open>Lines 23--24: \<open>app.use('/api/places', ...)\<close> and \<open>app.use('/api/users', ...)\<close>.\<close>

definition mount_rest :: "string \<Rightarrow> string list \<Rightarrow> string list option" where
  "mount_rest base p =
     (case p of a # b # rest \<Rightarrow> if ci_eq a ''api'' \<and> ci_eq b base then Some rest else None
      | _ \<Rightarrow> None)"

datatype router_outcome = Handle place_route | Allow_Methods "string list" | No_Match

definition places_outcome :: "request \<Rightarrow> router_outcome" where
  "places_outcome req =
     (case mount_rest ''places'' (req_path req) of
        None \<Rightarrow> No_Match
      | Some rest \<Rightarrow>
          (case places_route (req_method req) rest of
             Some r \<Rightarrow> Handle r
           | None \<Rightarrow> if req_method req = OPTIONS \<and> route_methods rest \<noteq> []
                     then Allow_Methods (route_methods rest) else No_Match))"

definition users_outcome :: "app_env \<Rightarrow> request \<Rightarrow> db \<Rightarrow> (action list \<times> db) option" where
  "users_outcome env req d =
     (case mount_rest ''users'' (req_path req) of None \<Rightarrow> None | Some _ \<Rightarrow> env_users env req d)"

subsection \<open>The middleware stack and its dispatch\<close>

text \<open>
  Lines 9--38 in order, after Express's own \<open>expressInit\<close> middleware, which sets
  \<open>X-Powered-By\<close>.
\<close>

datatype layer = Express_Init | Json_Parser | Cors_Mw | Places_Mount | Users_Mount | Not_Found_Mw | Error_Mw

definition app_stack :: "layer list" where
  "app_stack = [Express_Init, Json_Parser, Cors_Mw, Places_Mount, Users_Mount, Not_Found_Mw, Error_Mw]"

text \<open>
  Error mode: \<open>next(err)\<close> skips every layer but the error handler; the walk returns the
  response and the part of the stack after the layer that ended it (the shared cursor).
\<close>

fun error_walk :: "request \<Rightarrow> layer list \<Rightarrow> http_error \<Rightarrow> response \<Rightarrow> response \<times> layer list" where
  "error_walk req [] e res = (final_handler (Some e) req res, [])"
| "error_walk req (Error_Mw # ls) e res =
     (if res_prop res ''headerSent'' then error_walk req ls e res else (error_handler e res, ls))"
| "error_walk req (_ # ls) e res = error_walk req ls e res"

text \<open>
  A route handler's actions in order: \<open>res.json\<close> sends, \<open>next(error)\<close> resumes the walk
  at the cursor, an exception escaping the async handler is an unhandled rejection that
  Express 4 does not see.
\<close>

fun apply_actions :: "request \<Rightarrow> layer list \<Rightarrow> action list \<Rightarrow> response \<Rightarrow> response" where
  "apply_actions req ls [] res = res"
| "apply_actions req ls (Respond n b # acts) res = apply_actions req ls acts (send_json n b res)"
| "apply_actions req ls (Next e # acts) res =
     (case error_walk req ls e res of (res', ls') \<Rightarrow> apply_actions req ls' acts res')"
| "apply_actions req ls (Uncaught m # acts) res = apply_actions req ls acts res"

fun walk :: "app_env \<Rightarrow> db \<Rightarrow> request \<Rightarrow> layer list \<Rightarrow> response \<Rightarrow> response \<times> db" where
  "walk env d req [] res = (final_handler None req res, d)"
| "walk env d req (Express_Init # ls) res = walk env d req ls (set_header ''X-Powered-By'' ''Express'' res)"
| "walk env d req (Json_Parser # ls) res =
     (case req_body_error req of
        None \<Rightarrow> walk env d req ls res
      | Some m \<Rightarrow> (fst (error_walk req ls (body_parse_error m) res), d))"
| "walk env d req (Cors_Mw # ls) res = walk env d req ls (cors res)"
| "walk env d req (Places_Mount # ls) res =
     (case places_outcome req of
        Handle r \<Rightarrow> (case run_place_route env d req r of (acts, d') \<Rightarrow> (apply_actions req ls acts res, d'))
      | Allow_Methods ms \<Rightarrow>
          (send_text 200 (comma_join ms) (set_header ''Allow'' (comma_join ms) res), d)
      | No_Match \<Rightarrow> walk env d req ls res)"
| "walk env d req (Users_Mount # ls) res =
     (case users_outcome env req d of
        Some (acts, d') \<Rightarrow> (apply_actions req ls acts res, d')
      | None \<Rightarrow> walk env d req ls res)"
| "walk env d req (Not_Found_Mw # ls) res = (fst (error_walk req ls route_not_found res), d)"
| "walk env d req (Error_Mw # ls) res = walk env d req ls res"

text \<open>One request through the application.\<close>

definition serve :: "app_env \<Rightarrow> db \<Rightarrow> request \<Rightarrow> response \<times> db" where
  "serve env d req = walk env d req app_stack fresh_response"

subsection \<open>Startup\<close>

text \<open>
  Lines 41--51: \<open>mongoose.connect(...)\<close>, and only when it resolves,
  \<open>app.listen(5000)\<close>; a failed connection is logged and the process stays up without
  listening.
\<close>

datatype startup_effect = Connect | Log string | Listen nat

record server =
  listening :: "nat option"
  effects :: "startup_effect list"

definition startup :: "string + unit \<Rightarrow> server" where
  "startup conn =
     (case conn of
        Inl err \<Rightarrow> \<lparr>listening = None, effects = [Connect, Log err]\<rparr>
      | Inr () \<Rightarrow> \<lparr>listening = Some 5000,
                   effects = [Connect, Log ''Connected to database!'', Listen 5000,
                              Log ''Listening to port 5000!'']\<rparr>)"

text \<open>The answer an action sends on a response that has sent nothing yet.\<close>

definition first_answer :: "action \<Rightarrow> (nat \<times> payload) option" where
  "first_answer a = (case a of Respond n b \<Rightarrow> Some (n, Json b)
                    | Next e \<Rightarrow> Some (error_status e, Json (Message_Body (error_text e)))
                    | Uncaught _ \<Rightarrow> None)"

text \<open>The CORS headers of lines 15--19 are set, with their values, on a response.\<close>

definition has_cors :: "response \<Rightarrow> bool" where
  "has_cors res \<longleftrightarrow> list_all (\<lambda>(k, v). map_of (res_headers res) k = Some v) cors_headers"

text \<open>The response when the request reaches the routers: \<open>expressInit\<close>, then the CORS middleware.\<close>

abbreviation routed_response :: response where
  "routed_response \<equiv> cors (set_header ''X-Powered-By'' ''Express'' fresh_response)"

subsection \<open>Frame lemmas of the response operations\<close>

lemma res_prop_headerSent [simp]: "res_prop res ''headerSent'' = False"
  by (simp add: res_prop_def)

lemma response_headers_frame [simp]:
  "res_headers (send_json n b res) = res_headers res"
  "res_headers (send_text n s res) = res_headers res"
  "res_headers (error_handler e res) = res_headers res"
  "res_headers (final_handler err req res) = res_headers res"
  by (simp_all add: send_json_def send_text_def error_handler_def final_handler_def split: option.splits)

lemma response_coherent_steps:
  assumes "res_coherent res"
  shows "res_coherent (send_json n b res)" and "res_coherent (send_text n s res)"
    and "res_coherent (error_handler e res)" and "res_coherent (final_handler err req res)"
  using assms
  by (auto simp: res_coherent_def send_json_def send_text_def error_handler_def final_handler_def
           split: option.splits)

lemma response_keeps_sent:
  assumes "res_coherent res" and "sent res \<noteq> None"
  shows "sent (send_json n b res) = sent res" and "sent (send_text n s res) = sent res"
    and "sent (error_handler e res) = sent res" and "sent (final_handler err req res) = sent res"
  using assms
  by (auto simp: res_coherent_def send_json_def send_text_def error_handler_def final_handler_def
           split: option.splits)

lemma error_walk_headers [simp]: "res_headers (fst (error_walk req ls e res)) = res_headers res"
  by (induction req ls e res rule: error_walk.induct) simp_all

lemma error_walk_coherent: "res_coherent res \<Longrightarrow> res_coherent (fst (error_walk req ls e res))"
  by (induction req ls e res rule: error_walk.induct) (simp_all add: response_coherent_steps)

lemma error_walk_keeps_sent:
  "res_coherent res \<Longrightarrow> sent res \<noteq> None \<Longrightarrow> sent (fst (error_walk req ls e res)) = sent res"
  by (induction req ls e res rule: error_walk.induct) (simp_all add: response_keeps_sent)

lemma error_walk_handler:
  "Error_Mw \<in> set ls \<Longrightarrow> \<exists>ls'. error_walk req ls e res = (error_handler e res, ls')"
proof (induction ls)
  case Nil
  then show ?case by simp
next
  case (Cons l ls)
  then show ?case by (cases l) auto
qed

lemma error_walk_past_handler:
  "Error_Mw \<notin> set ls \<Longrightarrow> error_walk req ls e res = (final_handler (Some e) req res, [])"
proof (induction ls)
  case Nil
  then show ?case by simp
next
  case (Cons l ls)
  then show ?case by (cases l) auto
qed

lemma apply_actions_headers [simp]: "res_headers (apply_actions req ls acts res) = res_headers res"
proof (induction req ls acts res rule: apply_actions.induct)
  case (3 req ls e acts res)
  then show ?case by (cases "error_walk req ls e res") (metis apply_actions.simps(3) error_walk_headers fst_conv old.prod.case)
qed simp_all

lemma apply_actions_coherent: "res_coherent res \<Longrightarrow> res_coherent (apply_actions req ls acts res)"
proof (induction req ls acts res rule: apply_actions.induct)
  case (3 req ls e acts res)
  then show ?case
    by (cases "error_walk req ls e res") (metis apply_actions.simps(3) error_walk_coherent fst_conv old.prod.case)
qed (simp_all add: response_coherent_steps)

lemma apply_actions_keeps_sent:
  "res_coherent res \<Longrightarrow> sent res \<noteq> None \<Longrightarrow> sent (apply_actions req ls acts res) = sent res"
proof (induction req ls acts res rule: apply_actions.induct)
  case (2 req ls n b acts res)
  then show ?case by (simp add: response_coherent_steps response_keeps_sent)
next
  case (3 req ls e acts res)
  obtain res' ls' where w: "error_walk req ls e res = (res', ls')" by (cases "error_walk req ls e res")
  have "res_coherent res'" "sent res' = sent res"
    using error_walk_coherent [of res req ls e] error_walk_keeps_sent [of res req ls e] 3(2,3) w by simp_all
  with 3(1) [OF w [symmetric]] 3(3) w show ?case by simp
qed simp_all

lemma apply_actions_first:
  assumes "res_coherent res" and "sent res = None" and "Error_Mw \<in> set ls"
  shows "sent (apply_actions req ls (a # acts) res) =
           (case first_answer a of Some x \<Rightarrow> Some x | None \<Rightarrow> sent (apply_actions req ls acts res))"
proof (cases a)
  case (Respond n b)
  have "res_coherent (send_json n b res)" "sent (send_json n b res) = Some (n, Json b)"
    using assms by (auto simp: response_coherent_steps res_coherent_def send_json_def)
  then show ?thesis using Respond apply_actions_keeps_sent [of "send_json n b res" req ls acts]
    by (simp add: first_answer_def)
next
  case (Next e)
  obtain ls' where w: "error_walk req ls e res = (error_handler e res, ls')"
    using error_walk_handler [OF assms(3)] by blast
  have "res_coherent (error_handler e res)"
    "sent (error_handler e res) = Some (error_status e, Json (Message_Body (error_text e)))"
    using assms by (auto simp: response_coherent_steps res_coherent_def send_json_def error_handler_def)
  then show ?thesis using Next w apply_actions_keeps_sent [of "error_handler e res" req ls' acts]
    by (simp add: first_answer_def)
next
  case (Uncaught m)
  then show ?thesis by (simp add: first_answer_def)
qed

lemma sent_from_action:
  assumes "res_coherent res" and "sent res = None" and "Error_Mw \<in> set ls"
    and "sent (apply_actions req ls acts res) = Some x"
  shows "\<exists>a \<in> set acts. first_answer a = Some x"
  using assms(4)
proof (induction acts)
  case Nil
  then show ?case using assms(2) by simp
next
  case (Cons a acts)
  show ?case
  proof (cases "first_answer a")
    case None
    with Cons.prems apply_actions_first [OF assms(1-3), of req a acts]
    have "sent (apply_actions req ls acts res) = Some x" by simp
    with Cons.IH show ?thesis by auto
  next
    case (Some y)
    with Cons.prems apply_actions_first [OF assms(1-3), of req a acts] show ?thesis by auto
  qed
qed

lemma sent_single_uncaught: "sent (apply_actions req ls [Uncaught m] res) = sent res"
  by simp

subsection \<open>What the places handlers do to the exchange\<close>

lemma getPlaceById_answers: "\<exists>a. getPlaceById fails d s = [a] \<and> first_answer a \<noteq> None"
  by (auto simp: getPlaceById_def first_answer_def split: option.splits)

lemma getPlacesByUserId_answers: "\<exists>a. getPlacesByUserId fails d s = [a] \<and> first_answer a \<noteq> None"
  by (auto simp: getPlacesByUserId_def first_answer_def split: option.splits)

lemma deletePlace_answers: "\<exists>a. fst (deletePlace fails d s) = [a] \<and> first_answer a \<noteq> None"
  by (auto simp: deletePlace_def first_answer_def split: option.splits)

lemma createPlace_answers:
  "\<exists>a rest. fst (createPlace fails geocode ok new_id d t desc addr c) = a # rest \<and> first_answer a \<noteq> None"
  by (auto simp: createPlace_def await_coordinates_def first_answer_def Let_def split: option.splits sum.splits)

lemma updatePlace_answers:
  "(fst (updatePlace fails ok d s t desc) = [Uncaught ''TypeError: Cannot set property title of null''] \<and>
      ok \<and> find_place_by_id fails d s = Some None) \<or>
   (\<exists>a rest. fst (updatePlace fails ok d s t desc) = a # rest \<and> first_answer a \<noteq> None \<and>
      \<not> (ok \<and> find_place_by_id fails d s = Some None))"
  by (auto simp: updatePlace_def first_answer_def Let_def split: option.splits)

lemma run_place_route_answers:
  "(\<exists>a rest. fst (run_place_route env d req r) = a # rest \<and> first_answer a \<noteq> None \<and>
      \<not> (\<exists>pid. r = Update_Place pid \<and> req_valid req \<and> find_place_by_id (env_fails env) d pid = Some None)) \<or>
   (fst (run_place_route env d req r) = [Uncaught ''TypeError: Cannot set property title of null''] \<and>
      (\<exists>pid. r = Update_Place pid \<and> req_valid req \<and> find_place_by_id (env_fails env) d pid = Some None))"
proof (cases r)
  case (Update_Place pid)
  then show ?thesis
    using updatePlace_answers [of "env_fails env" "req_valid req" d pid "req_title req" "req_description req"]
    by (auto simp: run_place_route_def)
next
  case Create_Place
  then show ?thesis
    using createPlace_answers [of "env_fails env" "env_geocode env" "req_valid req" "env_new_id env" d
        "req_title req" "req_description req" "req_address req" "req_creator req"]
    by (auto simp: run_place_route_def)
next
  case (Get_Place pid)
  then show ?thesis using getPlaceById_answers [of "env_fails env" d pid]
    by (auto simp: run_place_route_def)
next
  case (Get_User_Places uid)
  then show ?thesis using getPlacesByUserId_answers [of "env_fails env" d uid]
    by (auto simp: run_place_route_def)
next
  case (Delete_Place pid)
  then show ?thesis using deletePlace_answers [of "env_fails env" d pid]
    by (auto simp: run_place_route_def)
qed

text \<open>The controllers answer directly only with 200 and 201; every error goes through \<open>next\<close>.\<close>

lemma run_place_route_respond_status:
  assumes "Respond n b \<in> set (fst (run_place_route env d req r))"
  shows "n = 200 \<or> n = 201"
proof (cases r)
  case Create_Place
  with assms have "Respond n b \<in> set (fst (createPlace (env_fails env) (env_geocode env) (req_valid req)
      (env_new_id env) d (req_title req) (req_description req) (req_address req) (req_creator req)))"
    by (simp add: run_place_route_def)
  from createPlace_respond_shape [OF this] show ?thesis by blast
next
  case (Update_Place pid)
  then show ?thesis using assms by (auto simp: run_place_route_def updatePlace_def Let_def split: option.splits if_splits)
qed (use assms in \<open>auto simp: run_place_route_def getPlaceById_def getPlacesByUserId_def deletePlace_def
                               split: option.splits if_splits\<close>)

subsection \<open>Routing\<close>

lemma ci_eq_refl [simp]: "ci_eq s s"
  by (simp add: ci_eq_def)

lemma places_outcome_handle:
  assumes "req_path req = ''api'' # ''places'' # rest" and "places_route (req_method req) rest = Some r"
  shows "places_outcome req = Handle r"
  using assms by (simp add: places_outcome_def mount_rest_def)

lemma serve_routed:
  assumes "req_body_error req = None"
  shows "serve env d req = walk env d req [Places_Mount, Users_Mount, Not_Found_Mw, Error_Mw] routed_response"
  using assms by (simp add: serve_def app_stack_def)

lemma serve_handle:
  assumes "req_body_error req = None" and "places_outcome req = Handle r"
  shows "serve env d req = (apply_actions req [Users_Mount, Not_Found_Mw, Error_Mw] (fst (run_place_route env d req r))
                              routed_response, snd (run_place_route env d req r))"
  using assms by (simp add: serve_routed split: prod.splits)

lemma routed_response_fresh [simp]:
  "res_coherent routed_response" "sent routed_response = None" "headersSent routed_response = False"
  by (simp_all add: res_coherent_def cors_def cors_headers_def set_header_def fresh_response_def)

subsection \<open>The CORS headers through the dispatch\<close>

lemma has_cors_cors: "has_cors (cors res)"
  by (simp add: has_cors_def cors_def cors_headers_def set_header_def update_conv')

lemma has_cors_frame [simp]:
  "has_cors (send_json n b res) = has_cors res" "has_cors (send_text n s res) = has_cors res"
  "has_cors (final_handler err req res) = has_cors res"
  "has_cors (fst (error_walk req ls e res)) = has_cors res"
  "has_cors (apply_actions req ls acts res) = has_cors res"
  by (simp_all add: has_cors_def)

lemma has_cors_set_header:
  "k \<notin> fst ` set cors_headers \<Longrightarrow> has_cors res \<Longrightarrow> has_cors (set_header k v res)"
  unfolding has_cors_def list_all_iff set_header_def by (fastforce simp: update_conv' image_iff)

lemma walk_has_cors: "has_cors res \<Longrightarrow> has_cors (fst (walk env d req ls res))"
proof (induction env d req ls res rule: walk.induct)
  case (2 env d req ls res)
  then show ?case by (simp add: has_cors_set_header cors_headers_def)
next
  case (3 env d req ls res)
  then show ?case by (cases "req_body_error req") simp_all
next
  case (4 env d req ls res)
  then show ?case by (simp add: has_cors_cors)
next
  case (5 env d req ls res)
  then show ?case
  proof (cases "places_outcome req")
    case (Handle r)
    with 5 show ?thesis by (cases "run_place_route env d req r") simp
  next
    case (Allow_Methods ms)
    with 5 show ?thesis by (simp add: has_cors_set_header cors_headers_def)
  qed simp
next
  case (6 env d req ls res)
  then show ?case by (cases "users_outcome env req d") auto
qed simp_all

lemma serve_body_error_headers:
  "req_body_error req = Some m \<Longrightarrow> res_headers (fst (serve env d req)) = [(''X-Powered-By'', ''Express'')]"
  by (simp add: serve_def app_stack_def set_header_def fresh_response_def)

lemma error_text_nonempty [simp]: "error_text e \<noteq> []"
  by (simp add: error_text_def)

lemma set_header_frame [simp]:
  "sent (set_header k v res) = sent res" "headersSent (set_header k v res) = headersSent res"
  by (simp_all add: set_header_def)

lemma places_route_OPTIONS [simp]: "places_route OPTIONS rest = None"
  by (simp add: places_route_def places_stack_def handles_def)

lemma serve_body_error_sent:
  "req_body_error req = Some m \<Longrightarrow>
     serve env d req = (fst (error_walk req [Cors_Mw, Places_Mount, Users_Mount, Not_Found_Mw, Error_Mw]
                              (body_parse_error m) (set_header ''X-Powered-By'' ''Express'' fresh_response)), d) \<and>
     sent (fst (serve env d req)) = Some (500, Json (Message_Body (error_text (body_parse_error m))))"
  by (simp add: serve_def app_stack_def error_handler_def send_json_def error_status_def
                body_parse_error_def set_header_def fresh_response_def)

subsection \<open>Properties of the middleware stack\<close>

text \<open>
  C24: the three CORS headers of lines 15--19, with their values, are on the response
  exactly when \<open>bodyParser.json()\<close> accepted the request body.  Every route's answer,
  the automatic \<open>OPTIONS\<close> answer, the not-found answer and every error answer carry
  them, since the CORS middleware runs before the routers and nothing later removes a
  header; a malformed JSON body is rejected by the parser, which runs before the CORS
  middleware, and that error answer goes out without them.
\<close>

theorem serve_cors_iff_body_parsed: "has_cors (fst (serve env d req)) \<longleftrightarrow> req_body_error req = None"
proof (cases "req_body_error req")
  case None
  have "has_cors (fst (walk env d req [Places_Mount, Users_Mount, Not_Found_Mw, Error_Mw] routed_response))"
    by (rule walk_has_cors [OF has_cors_cors])
  then show ?thesis by (simp only: serve_routed [OF None] None simp_thms)
next
  case (Some m)
  then show ?thesis by (simp add: serve_body_error_headers has_cors_def cors_headers_def)
qed

theorem serve_cors_iff_body_parsed_witness:
  "has_cors (fst (serve \<lparr>env_fails = no_faults, env_geocode = demo_geocode, env_new_id = demo_place_id,
                         env_users = \<lambda>_ _. None\<rparr> demo_db
     \<lparr>req_method = OPTIONS, req_path = [''api'', ''places''], req_body_error = None, req_title = [],
      req_description = [], req_address = [], req_creator = [], req_valid = False\<rparr>)) \<and>
   \<not> has_cors (fst (serve \<lparr>env_fails = no_faults, env_geocode = demo_geocode, env_new_id = demo_place_id,
                         env_users = \<lambda>_ _. None\<rparr> demo_db
     \<lparr>req_method = POST, req_path = [''api'', ''places''], req_body_error = Some ''Unexpected token } in JSON'',
      req_title = [], req_description = [], req_address = [], req_creator = [], req_valid = False\<rparr>))"
  using serve_cors_iff_body_parsed by simp

text \<open>
  C25: the error handler's guard reads \<open>res.headerSent\<close>, which is always undefined
  (Node's property is \<open>headersSent\<close>): an error that reaches the handler after a response
  went out is not passed on to Express's final handler; the handler tries to send a
  second response and raises \<open>ERR_HTTP_HEADERS_SENT\<close>.
\<close>

theorem error_handler_guard_dead:
  assumes "headersSent res"
  shows "error_handler e res = res\<lparr>send_errors := send_errors res @ [''ERR_HTTP_HEADERS_SENT'']\<rparr>"
  using assms by (simp add: error_handler_def send_json_def)

theorem error_handler_guard_dead_witness:
  "headersSent (send_json 200 (Message_Body ''ok'') fresh_response) \<and>
   error_handler (HttpError ''Creating place failed, please try again.'' 500) (send_json 200 (Message_Body ''ok'') fresh_response)
     = (send_json 200 (Message_Body ''ok'') fresh_response)\<lparr>send_errors := [''ERR_HTTP_HEADERS_SENT'']\<rparr>"
proof -
  have h: "headersSent (send_json 200 (Message_Body ''ok'') fresh_response)"
    by (simp add: send_json_def fresh_response_def)
  show ?thesis using h error_handler_guard_dead [OF h, of "HttpError ''Creating place failed, please try again.'' 500"]
    by (simp add: send_json_def fresh_response_def)
qed

end
