(* ===== verification/Http_Hook.thy ===== *)
theory Http_Hook
  imports Http
begin

text \<open>
  The front-end hook \<open>useHttpClient\<close> of \<open>src/frontend/src/shared/hooks/http-hook.js\<close>.
  Its state is two React state cells (\<open>isLoading\<close>, \<open>error\<close>) and one ref
  (\<open>activeHttpRequests.current\<close>, a list of AbortControllers).  An AbortController is
  represented by a number, drawn fresh for each call of \<open>sendRequest\<close>.  Around that
  state the model keeps what the JavaScript runtime keeps: which \<open>sendRequest\<close> calls
  are still awaiting \<open>fetch\<close> or \<open>response.json()\<close> (\<open>pending\<close>, by controller),
  which controllers \<open>abort()\<close> has been called on, in order (\<open>aborted\<close>), whether the
  component is still mounted, and how many state updates were attempted after unmount
  (React ignores them and warns).

  \<open>sendRequest\<close> is two steps, because it awaits: \<open>Send\<close> runs lines 12--14 up to the
  first \<open>await\<close>; \<open>Settle c r\<close> runs the rest once the fetch of controller \<open>c\<close> settles
  with outcome \<open>r\<close> (a response with its status and parsed JSON body, or a rejection with
  the error's message: of \<open>fetch\<close> itself, or of \<open>response.json()\<close> on a body that is not
  JSON, which lines 24--41 treat alike), and yields the value the caller's promise settles to.  The request's
  url, method, body and headers go to \<open>fetch\<close> unchanged and do not touch the hook's state,
  so they are not part of the events.  A fetch whose controller was aborted rejects with
  an AbortError, whatever the network would have answered.  \<open>ClearError\<close> is
  \<open>clearError\<close>; \<open>Unmount\<close> runs the cleanup of the \<open>useEffect\<close> with empty
  dependencies, which React runs once, when the component unmounts.
\<close>

record hook_state =
  isLoading :: bool
  error :: "string option"
  activeHttpRequests :: "nat list"
  pending :: "nat list"
  aborted :: "nat list"
  mounted :: bool
  late_updates :: nat
  next_ctrl :: nat

datatype fetch_outcome =
  Response nat body
| Fetch_Rejected string

datatype call_result =
  Resolved body
| Rejected string

datatype hook_event =
  Send
| Settle nat fetch_outcome
| ClearError
| Unmount

definition hook_init :: hook_state where
  "hook_init = \<lparr>isLoading = False, error = None, activeHttpRequests = [], pending = [],
                aborted = [], mounted = True, late_updates = 0, next_ctrl = 0\<rparr>"

definition abort_message :: string where
  "abort_message = ''The user aborted a request.''"

text \<open>\<open>response.ok\<close>: a status in 200--299.\<close>

definition response_ok :: "nat \<Rightarrow> bool" where
  "response_ok n \<longleftrightarrow> 200 \<le> n \<and> n \<le> 299"

text \<open>
  \<open>new Error(responseData.message).message\<close>: the body's \<open>message\<close> field, or the
  empty string when the body has none (\<open>new Error(undefined)\<close>).
\<close>

definition body_message :: "body \<Rightarrow> string" where
  "body_message b = (case b of Message_Body m \<Rightarrow> m | _ \<Rightarrow> [])"

text \<open>A React state setter: applied while mounted, ignored (with a warning) after.\<close>

definition set_state :: "(hook_state \<Rightarrow> hook_state) \<Rightarrow> hook_state \<Rightarrow> hook_state" where
  "set_state f st = (if mounted st then f st else st\<lparr>late_updates := Suc (late_updates st)\<rparr>)"

definition setIsLoading :: "bool \<Rightarrow> hook_state \<Rightarrow> hook_state" where
  "setIsLoading b = set_state (\<lambda>st. st\<lparr>isLoading := b\<rparr>)"

definition setError :: "string option \<Rightarrow> hook_state \<Rightarrow> hook_state" where
  "setError e = set_state (\<lambda>st. st\<lparr>error := e\<rparr>)"

text \<open>Lines 12--14: \<open>setIsLoading(true)\<close>, a fresh controller pushed on the ref.\<close>

definition send_start :: "hook_state \<Rightarrow> hook_state" where
  "send_start st =
     (let st1 = setIsLoading True st; c = next_ctrl st1
      in st1\<lparr>next_ctrl := Suc c, activeHttpRequests := activeHttpRequests st1 @ [c],
             pending := pending st1 @ [c]\<rparr>)"

text \<open>Lines 27--29: the completed request's controller is filtered out of the ref.\<close>

definition drop_controller :: "nat \<Rightarrow> hook_state \<Rightarrow> hook_state" where
  "drop_controller c st = st\<lparr>activeHttpRequests := filter (\<lambda>x. x \<noteq> c) (activeHttpRequests st)\<rparr>"

text \<open>Lines 37--40: the \<open>catch\<close> block.\<close>

definition send_catch :: "string \<Rightarrow> hook_state \<Rightarrow> hook_state \<times> call_result" where
  "send_catch m st = (setIsLoading False (setError (Some m) st), Rejected m)"

text \<open>Lines 17--40 after the fetch of controller \<open>c\<close> has settled with \<open>r\<close>.\<close>

definition send_settle :: "nat \<Rightarrow> fetch_outcome \<Rightarrow> hook_state \<Rightarrow> hook_state \<times> call_result" where
  "send_settle c r st =
     (let st0 = st\<lparr>pending := remove1 c (pending st)\<rparr>;
          r' = (if c \<in> set (aborted st) then Fetch_Rejected abort_message else r)
      in case r' of
           Fetch_Rejected m \<Rightarrow> send_catch m st0
         | Response n b \<Rightarrow>
             (let st1 = drop_controller c st0
              in if \<not> response_ok n then send_catch (body_message b) st1
                 else (setIsLoading False st1, Resolved b)))"

definition clearError :: "hook_state \<Rightarrow> hook_state" where
  "clearError st = setError None st"

text \<open>Lines 50--54: the effect's cleanup aborts every controller still in the ref.\<close>

definition unmount_cleanup :: "hook_state \<Rightarrow> hook_state" where
  "unmount_cleanup st =
     (if mounted st then st\<lparr>aborted := aborted st @ activeHttpRequests st, mounted := False\<rparr> else st)"

fun hook_step :: "hook_state \<Rightarrow> hook_event \<Rightarrow> hook_state \<times> call_result option" where
  "hook_step st Send = (send_start st, None)"
| "hook_step st (Settle c r) =
     (if c \<in> set (pending st) then map_prod id Some (send_settle c r st) else (st, None))"
| "hook_step st ClearError = (clearError st, None)"
| "hook_step st Unmount = (unmount_cleanup st, None)"

fun hook_run :: "hook_state \<Rightarrow> hook_event list \<Rightarrow> hook_state \<times> call_result list" where
  "hook_run st [] = (st, [])"
| "hook_run st (e # es) =
     (case hook_step st e of
        (st', res) \<Rightarrow> (case hook_run st' es of
                         (st'', rs) \<Rightarrow> (st'', (case res of None \<Rightarrow> rs | Some x \<Rightarrow> x # rs))))"

inductive hook_reachable :: "hook_state \<Rightarrow> bool" where
  init: "hook_reachable hook_init"
| step: "hook_reachable st \<Longrightarrow> hook_reachable (fst (hook_step st e))"

definition hook_inv :: "hook_state \<Rightarrow> bool" where
  "hook_inv st \<longleftrightarrow>
     distinct (activeHttpRequests st) \<and> distinct (pending st) \<and>
     set (pending st) \<subseteq> set (activeHttpRequests st) \<and>
     list_all (\<lambda>c. c < next_ctrl st) (activeHttpRequests st) \<and>
     distinct (aborted st) \<and> list_all (\<lambda>c. c < next_ctrl st) (aborted st) \<and>
     (mounted st \<longrightarrow> aborted st = [])"

subsection \<open>Frame lemmas of the steps\<close>

lemma set_state_fields [simp]:
  "activeHttpRequests (set_state f st) = (if mounted st then activeHttpRequests (f st) else activeHttpRequests st)"
  "pending (set_state f st) = (if mounted st then pending (f st) else pending st)"
  "aborted (set_state f st) = (if mounted st then aborted (f st) else aborted st)"
  "mounted (set_state f st) = (if mounted st then mounted (f st) else mounted st)"
  "next_ctrl (set_state f st) = (if mounted st then next_ctrl (f st) else next_ctrl st)"
  by (simp_all add: set_state_def)

lemma setters_frame [simp]:
  "activeHttpRequests (setIsLoading b st) = activeHttpRequests st"
  "pending (setIsLoading b st) = pending st"
  "aborted (setIsLoading b st) = aborted st"
  "mounted (setIsLoading b st) = mounted st"
  "next_ctrl (setIsLoading b st) = next_ctrl st"
  "activeHttpRequests (setError e st) = activeHttpRequests st"
  "pending (setError e st) = pending st"
  "aborted (setError e st) = aborted st"
  "mounted (setError e st) = mounted st"
  "next_ctrl (setError e st) = next_ctrl st"
  by (simp_all add: setIsLoading_def setError_def)

lemma setIsLoading_mounted [simp]:
  "mounted st \<Longrightarrow> isLoading (setIsLoading b st) = b"
  "mounted st \<Longrightarrow> error (setIsLoading b st) = error st"
  by (simp_all add: setIsLoading_def set_state_def)

lemma setError_mounted [simp]:
  "mounted st \<Longrightarrow> error (setError e st) = e"
  "mounted st \<Longrightarrow> isLoading (setError e st) = isLoading st"
  by (simp_all add: setError_def set_state_def)

lemma send_settle_frame:
  "pending (fst (send_settle c r st)) = remove1 c (pending st)"
  "aborted (fst (send_settle c r st)) = aborted st"
  "mounted (fst (send_settle c r st)) = mounted st"
  "next_ctrl (fst (send_settle c r st)) = next_ctrl st"
  "activeHttpRequests (fst (send_settle c r st)) \<in> {activeHttpRequests st, filter (\<lambda>x. x \<noteq> c) (activeHttpRequests st)}"
  by (auto simp: send_settle_def send_catch_def drop_controller_def Let_def split: fetch_outcome.splits)

lemma hook_inv_send_start: "hook_inv st \<Longrightarrow> hook_inv (send_start st)"
  by (auto simp: hook_inv_def send_start_def Let_def list_all_iff)

lemma hook_inv_send_settle:
  assumes "hook_inv st"
  shows "hook_inv (fst (send_settle c r st))"
proof -
  let ?st' = "fst (send_settle c r st)"
  have a: "activeHttpRequests ?st' \<in> {activeHttpRequests st, filter (\<lambda>x. x \<noteq> c) (activeHttpRequests st)}"
    by (rule send_settle_frame)
  have "set (pending ?st') \<subseteq> set (activeHttpRequests ?st')"
  proof -
    have "set (remove1 c (pending st)) \<subseteq> set (pending st) - {c}"
      using assms by (auto simp: hook_inv_def)
    then show ?thesis using a assms by (auto simp: hook_inv_def send_settle_frame)
  qed
  with a assms show ?thesis
    by (auto simp: hook_inv_def send_settle_frame list_all_iff)
qed

lemma hook_inv_step: "hook_inv st \<Longrightarrow> hook_inv (fst (hook_step st e))"
proof (cases e)
  case Send
  then show "hook_inv st \<Longrightarrow> ?thesis" by (simp add: hook_inv_send_start)
next
  case (Settle c r)
  then show "hook_inv st \<Longrightarrow> ?thesis" by (simp add: hook_inv_send_settle)
next
  case ClearError
  then show "hook_inv st \<Longrightarrow> ?thesis" by (simp add: hook_inv_def clearError_def)
next
  case Unmount
  then show "hook_inv st \<Longrightarrow> ?thesis" by (auto simp: hook_inv_def unmount_cleanup_def)
qed

lemma fst_hook_run_Cons [simp]:
  "fst (hook_run st (e # es)) = fst (hook_run (fst (hook_step st e)) es)"
  by (cases "hook_step st e"; cases "hook_run (fst (hook_step st e)) es") simp

lemma hook_run_reachable:
  "hook_reachable st \<Longrightarrow> hook_reachable (fst (hook_run st es))"
proof (induction es arbitrary: st)
  case Nil
  then show ?case by simp
next
  case (Cons e es)
  have "hook_reachable (fst (hook_step st e))" using Cons.prems by (rule hook_reachable.step)
  then have "hook_reachable (fst (hook_run (fst (hook_step st e)) es))" by (rule Cons.IH)
  then show ?case by (simp only: fst_hook_run_Cons)
qed


lemma reachable_hook_inv: "hook_reachable st \<Longrightarrow> hook_inv st"
proof (induction rule: hook_reachable.induct)
  case init
  show ?case by (simp add: hook_inv_def hook_init_def)
next
  case (step st e)
  from step.IH show ?case by (rule hook_inv_step)
qed

lemmas hook_eval = hook_init_def send_start_def setIsLoading_def setError_def set_state_def
  send_settle_def send_catch_def drop_controller_def unmount_cleanup_def clearError_def
  response_ok_def Let_def

subsection \<open>The hook's invariant\<close>

text \<open>
  C14: in every reachable state of the hook, the controller list and the pending calls
  are duplicate-free, every pending call's controller is in the list, controllers are
  numbered below the next fresh one, and no controller was aborted while the component
  is mounted; abort is never called twice on one controller.
\<close>

theorem hook_reachable_inv: "hook_reachable st \<Longrightarrow> hook_inv st"
  by (rule reachable_hook_inv)

theorem hook_reachable_inv_witness:
  "hook_reachable (fst (hook_run hook_init [Send, Send, Unmount])) \<and>
   hook_inv (fst (hook_run hook_init [Send, Send, Unmount]))"
proof -
  have r: "hook_reachable (fst (hook_run hook_init [Send, Send, Unmount]))"
    by (rule hook_run_reachable [OF hook_reachable.init])
  show ?thesis using r hook_reachable_inv [OF r] by blast
qed

subsection \<open>The request lifecycle\<close>

text \<open>
  C15: once a pending call of a mounted hook settles, whatever the outcome (response,
  network failure, cancellation), \<open>isLoading\<close> is false and the call is no longer
  pending (spec section 8).
\<close>

theorem settle_clears_loading:
  assumes "hook_reachable st" and "mounted st" and "c \<in> set (pending st)"
  shows "\<not> isLoading (fst (hook_step st (Settle c r))) \<and> c \<notin> set (pending (fst (hook_step st (Settle c r))))"
proof -
  have "distinct (pending st)" using reachable_hook_inv [OF assms(1)] by (simp add: hook_inv_def)
  with assms(2,3) show ?thesis
    by (auto simp: send_settle_def send_catch_def drop_controller_def Let_def split: fetch_outcome.splits)
qed

theorem settle_clears_loading_witness:
  "hook_reachable (fst (hook_run hook_init [Send])) \<and> mounted (fst (hook_run hook_init [Send])) \<and>
   0 \<in> set (pending (fst (hook_run hook_init [Send]))) \<and>
   \<not> isLoading (fst (hook_step (fst (hook_run hook_init [Send])) (Settle 0 (Fetch_Rejected ''Failed to fetch'')))) \<and>
   0 \<notin> set (pending (fst (hook_step (fst (hook_run hook_init [Send])) (Settle 0 (Fetch_Rejected ''Failed to fetch'')))))"
proof -
  have r: "hook_reachable (fst (hook_run hook_init [Send]))"
    by (rule hook_run_reachable [OF hook_reachable.init])
  have h: "mounted (fst (hook_run hook_init [Send]))" "0 \<in> set (pending (fst (hook_run hook_init [Send])))"
    by (simp_all add: hook_eval)
  show ?thesis using r h settle_clears_loading [OF r h] by blast
qed

text \<open>
  C16: when the component unmounts, every controller still in the hook's list (which
  holds every pending call's controller, by C14) receives \<open>abort()\<close> exactly once
  (spec section 8).
\<close>

theorem unmount_aborts_each_once:
  assumes "hook_reachable st" and "mounted st"
  shows "\<forall>c \<in> set (activeHttpRequests st). count_list (aborted (fst (hook_step st Unmount))) c = 1"
proof -
  from reachable_hook_inv [OF assms(1)] assms(2)
  have "distinct (activeHttpRequests st)" and "aborted st = []" by (auto simp: hook_inv_def)
  with assms(2) show ?thesis by (simp add: unmount_cleanup_def count_list_distinct_mem)
qed

theorem unmount_aborts_each_once_witness:
  "hook_reachable (fst (hook_run hook_init [Send, Send])) \<and> mounted (fst (hook_run hook_init [Send, Send])) \<and>
   activeHttpRequests (fst (hook_run hook_init [Send, Send])) = [0, 1] \<and>
   count_list (aborted (fst (hook_step (fst (hook_run hook_init [Send, Send])) Unmount))) 0 = 1 \<and>
   count_list (aborted (fst (hook_step (fst (hook_run hook_init [Send, Send])) Unmount))) 1 = 1"
proof -
  have r: "hook_reachable (fst (hook_run hook_init [Send, Send]))"
    by (rule hook_run_reachable [OF hook_reachable.init])
  have h: "mounted (fst (hook_run hook_init [Send, Send]))"
    "activeHttpRequests (fst (hook_run hook_init [Send, Send])) = [0, 1]"
    by (simp_all add: hook_eval)
  show ?thesis using r h unmount_aborts_each_once [OF r h(1)] by simp
qed

text \<open>
  C17: a call whose fetch (or \<open>response.json()\<close>) rejects keeps its controller in the
  hook's list: the filter of lines 27--29 is skipped by the exception.  The spec says
  every settled request removes its own handle.
\<close>

theorem settle_rejected_keeps_controller:
  assumes "hook_reachable st" and "c \<in> set (pending st)"
  shows "c \<in> set (activeHttpRequests (fst (hook_step st (Settle c (Fetch_Rejected m)))))"
proof -
  have "c \<in> set (activeHttpRequests st)" using reachable_hook_inv [OF assms(1)] assms(2)
    by (auto simp: hook_inv_def)
  with assms(2) show ?thesis by (simp add: send_settle_def send_catch_def Let_def)
qed

theorem settle_rejected_keeps_controller_witness:
  "hook_reachable (fst (hook_run hook_init [Send])) \<and> 0 \<in> set (pending (fst (hook_run hook_init [Send]))) \<and>
   0 \<in> set (activeHttpRequests (fst (hook_step (fst (hook_run hook_init [Send])) (Settle 0 (Fetch_Rejected ''Failed to fetch'')))))"
proof -
  have r: "hook_reachable (fst (hook_run hook_init [Send]))"
    by (rule hook_run_reachable [OF hook_reachable.init])
  have h: "0 \<in> set (pending (fst (hook_run hook_init [Send])))" by (simp add: hook_eval)
  show ?thesis using r h settle_rejected_keeps_controller [OF r h] by blast
qed

text \<open>
  C18: a call cancelled by the unmount cleanup still runs its \<open>catch\<close> block when its
  fetch rejects, and calls \<open>setError\<close> and \<open>setIsLoading\<close> on the unmounted
  component: two state updates on a discarded scope, which the spec rules out.  React
  drops them, so the visible state does not change.
\<close>

theorem settle_after_unmount_updates_discarded_scope:
  assumes "\<not> mounted st" and "c \<in> set (aborted st)" and "c \<in> set (pending st)"
  shows "late_updates (fst (hook_step st (Settle c r))) = late_updates st + 2 \<and>
         isLoading (fst (hook_step st (Settle c r))) = isLoading st \<and>
         error (fst (hook_step st (Settle c r))) = error st"
  using assms
  by (auto simp: send_settle_def send_catch_def drop_controller_def setIsLoading_def setError_def
                 set_state_def Let_def split: fetch_outcome.splits)

theorem settle_after_unmount_updates_discarded_scope_witness:
  "\<not> mounted (fst (hook_run hook_init [Send, Unmount])) \<and> 0 \<in> set (aborted (fst (hook_run hook_init [Send, Unmount]))) \<and>
   0 \<in> set (pending (fst (hook_run hook_init [Send, Unmount]))) \<and>
   late_updates (fst (hook_step (fst (hook_run hook_init [Send, Unmount])) (Settle 0 (Response 200 (Message_Body ''ok'')))))
     = late_updates (fst (hook_run hook_init [Send, Unmount])) + 2 \<and>
   isLoading (fst (hook_step (fst (hook_run hook_init [Send, Unmount])) (Settle 0 (Response 200 (Message_Body ''ok'')))))
     = isLoading (fst (hook_run hook_init [Send, Unmount])) \<and>
   error (fst (hook_step (fst (hook_run hook_init [Send, Unmount])) (Settle 0 (Response 200 (Message_Body ''ok'')))))
     = error (fst (hook_run hook_init [Send, Unmount]))"
proof -
  have h: "\<not> mounted (fst (hook_run hook_init [Send, Unmount]))"
    "0 \<in> set (aborted (fst (hook_run hook_init [Send, Unmount])))"
    "0 \<in> set (pending (fst (hook_run hook_init [Send, Unmount])))"
    by (simp_all add: hook_eval)
  show ?thesis using h settle_after_unmount_updates_discarded_scope [OF h] by blast
qed

subsection \<open>What the caller's promise settles to\<close>

text \<open>
  C19: a response that is not ok makes the call reject with the response body's
  \<open>message\<close> and stores that message as the hook's error, with loading cleared.
\<close>

theorem error_response_rejects_with_message:
  assumes "mounted st" and "c \<in> set (pending st)" and "c \<notin> set (aborted st)" and "\<not> response_ok n"
  shows "snd (hook_step st (Settle c (Response n b))) = Some (Rejected (body_message b)) \<and>
         error (fst (hook_step st (Settle c (Response n b)))) = Some (body_message b) \<and>
         \<not> isLoading (fst (hook_step st (Settle c (Response n b))))"
  using assms by (simp add: send_settle_def send_catch_def drop_controller_def Let_def)

theorem error_response_rejects_with_message_witness:
  "mounted (fst (hook_run hook_init [Send])) \<and> 0 \<in> set (pending (fst (hook_run hook_init [Send]))) \<and>
   0 \<notin> set (aborted (fst (hook_run hook_init [Send]))) \<and> \<not> response_ok 404 \<and>
   snd (hook_step (fst (hook_run hook_init [Send])) (Settle 0 (Response 404 (Message_Body ''Could not find a place for the provided id.''))))
     = Some (Rejected ''Could not find a place for the provided id.'') \<and>
   error (fst (hook_step (fst (hook_run hook_init [Send])) (Settle 0 (Response 404 (Message_Body ''Could not find a place for the provided id.'')))))
     = Some ''Could not find a place for the provided id.'' \<and>
   \<not> isLoading (fst (hook_step (fst (hook_run hook_init [Send])) (Settle 0 (Response 404 (Message_Body ''Could not find a place for the provided id.'')))))"
proof -
  have h: "mounted (fst (hook_run hook_init [Send]))" "0 \<in> set (pending (fst (hook_run hook_init [Send])))"
    "0 \<notin> set (aborted (fst (hook_run hook_init [Send])))" "\<not> response_ok 404"
    by (simp_all add: hook_eval)
  show ?thesis
    using h error_response_rejects_with_message [OF h, of "Message_Body ''Could not find a place for the provided id.''"]
    by (simp add: body_message_def)
qed

text \<open>
  C21: \<open>clearError\<close> clears the error and changes neither \<open>isLoading\<close> nor the
  outstanding requests (spec section 8).
\<close>

theorem clearError_only_clears_error:
  assumes "mounted st"
  shows "error (clearError st) = None \<and> isLoading (clearError st) = isLoading st \<and>
         activeHttpRequests (clearError st) = activeHttpRequests st \<and> pending (clearError st) = pending st"
  using assms by (simp add: clearError_def)

theorem clearError_only_clears_error_witness:
  "mounted (fst (hook_run hook_init [Send])) \<and>
   error (clearError (fst (hook_run hook_init [Send]))) = None \<and>
   isLoading (clearError (fst (hook_run hook_init [Send]))) = isLoading (fst (hook_run hook_init [Send])) \<and>
   activeHttpRequests (clearError (fst (hook_run hook_init [Send]))) = activeHttpRequests (fst (hook_run hook_init [Send])) \<and>
   pending (clearError (fst (hook_run hook_init [Send]))) = pending (fst (hook_run hook_init [Send]))"
proof -
  have h: "mounted (fst (hook_run hook_init [Send]))" by (simp add: hook_eval)
  show ?thesis using h clearError_only_clears_error [OF h] by blast
qed

text \<open>
  C22: a call that receives a response (ok or not) removes its own controller from the
  hook's list.
\<close>

theorem settle_response_drops_controller:
  assumes "c \<in> set (pending st)" and "c \<notin> set (aborted st)"
  shows "c \<notin> set (activeHttpRequests (fst (hook_step st (Settle c (Response n b)))))"
  using assms by (simp add: send_settle_def send_catch_def drop_controller_def Let_def)

theorem settle_response_drops_controller_witness:
  "0 \<in> set (pending (fst (hook_run hook_init [Send]))) \<and> 0 \<notin> set (aborted (fst (hook_run hook_init [Send]))) \<and>
   0 \<notin> set (activeHttpRequests (fst (hook_step (fst (hook_run hook_init [Send])) (Settle 0 (Response 201 (Message_Body ''ok''))))))"
proof -
  have h: "0 \<in> set (pending (fst (hook_run hook_init [Send])))" "0 \<notin> set (aborted (fst (hook_run hook_init [Send])))"
    by (simp_all add: hook_eval)
  show ?thesis using h settle_response_drops_controller [OF h] by blast
qed

text \<open>
  C23: \<open>isLoading\<close> is one flag, not a count: while the component is mounted, two
  overlapping calls reach a state where the first has settled and cleared the flag
  although the second is still pending (spec section 4.2's sharp edge).  A mounted hook
  with a single call in flight always shows \<open>isLoading\<close>, so the state needs the overlap.
\<close>

theorem loading_flag_races:
  "\<exists>st. hook_reachable st \<and> mounted st \<and> \<not> isLoading st \<and> pending st \<noteq> []"
proof -
  let ?st = "fst (hook_run hook_init [Send, Send, Settle 0 (Response 200 (Message_Body ''ok''))])"
  have "hook_reachable ?st" by (rule hook_run_reachable [OF hook_reachable.init])
  moreover have "mounted ?st \<and> \<not> isLoading ?st \<and> pending ?st = [1]"
    by (simp add: hook_eval)
  ultimately show ?thesis by auto
qed

end
