(* ===== verification/Spec2Isabelle.thy ===== *)
theory Spec2Isabelle
  imports App Http_Hook
begin

text \<open>
  \<^bold>\<open>A verification library for the MERN places application.\<close>

  The repository is a small places directory: an Express/Mongoose backend
  (\<open>src/backend/app.js\<close>, \<open>src/backend/controllers/places-controllers.js\<close>) exposing
  CRUD endpoints over user-owned place documents, and a React hook
  (\<open>src/frontend/src/shared/hooks/http-hook.js\<close>) that wraps \<open>fetch\<close> with loading and
  error state and cancellation.  The parts and how they interact: an HTTP request goes
  through the middleware chain of \<open>app.js\<close>, the places router hands it to one of the
  five controllers, each controller awaits mongoose queries and writes on the two
  collections (create and delete inside a session transaction that keeps a place and its
  creator's place list consistent), and what the controller sends or passes to
  \<open>next\<close> ends in the error-handling middleware.  On the client, the hook issues such
  requests and turns the answers into its \<open>isLoading\<close>/\<open>error\<close> state.

  \<^bold>\<open>Theories and what they model.\<close>
  \<^item> \<open>Prelude\<close>: the \<open>attempt\<close> type (an awaited call that may reject, as \<open>option\<close>),
    list and map lemmas the proofs share, the \<open>store_simps\<close>/\<open>hook_simps\<close> collections.
  \<^item> \<open>Object_Id\<close>: bson's string-to-ObjectId cast used by \<open>findById\<close> (24 hex digits or
    any 12 characters; anything else is a CastError) and the hex \<open>id\<close> virtual, with the
    round trip \<open>cast_oid (oid_hex i) = Some i\<close> on 12-byte ids.
  \<^item> \<open>Store\<close>: the Place and User documents (records), the collections (maps from ids),
    each mongoose call the controllers await (\<open>find_place_by_id\<close>,
    \<open>find_user_with_places\<close> for \<open>populate("places")\<close>, \<open>find_place_with_creator\<close> for
    \<open>populate("creator")\<close>, \<open>insert_place\<close>/\<open>update_place\<close>/\<open>update_user\<close> for
    \<open>save\<close>, \<open>remove_place\<close>, \<open>run_transaction\<close> for startSession/commitTransaction),
    each parameterised by \<open>fails\<close>, the set of calls that reject; the consistency
    invariant \<open>db_consistent\<close>; the abstract service \<open>link_place\<close>, \<open>unlink_place\<close>,
    \<open>edit_place\<close> and the invariant's preservation by each.  Mongoose, the schemas and
    bson are not under \<open>src/\<close>: this theory and \<open>Object_Id\<close> are modelled from the spec.
  \<^item> \<open>Http\<close>: \<open>HttpError\<close>, the JSON bodies, and a handler's effect as a list of
    actions (\<open>res.json\<close>, \<open>next(error)\<close>, or an exception that escapes the async handler).
  \<^item> \<open>Places_Controller\<close>: \<open>getPlaceById\<close>, \<open>getPlacesByUserId\<close>, \<open>createPlace\<close>,
    \<open>updatePlace\<close>, \<open>deletePlace\<close>, one definition each with every guard and early
    return of the source; the transaction bodies \<open>create_writes\<close>, \<open>delete_writes\<close>.
    Collaborators outside \<open>src/\<close> are parameters: the validator's verdict, the geocoder,
    the ObjectId \<open>new Place\<close> draws.
  \<^item> \<open>App\<close>: \<open>app.js\<close>: the response object, the CORS middleware, the error handler
    (with the \<open>res.headerSent\<close> lookup as written), the not-found middleware, the
    body parser's verdict, the places route table (from the spec; \<open>routes/\<close> is not under
    \<open>src/\<close>), and Express 4's dispatch over the application's stack \<open>app_stack\<close>:
    \<open>walk\<close> runs the layers in order, \<open>error_walk\<close> is error mode (only the
    four-argument handler runs), \<open>apply_actions\<close> feeds a controller's actions back with
    the shared cursor, so a second \<open>next(error)\<close> reaches \<open>final_handler\<close>; mounts and
    routes match case-insensitively, \<open>OPTIONS\<close> gets the router's automatic \<open>Allow\<close>
    answer, \<open>HEAD\<close> runs \<open>GET\<close> routes.  \<open>serve\<close> is one request through it all;
    \<open>startup\<close> is lines 41--51.
  \<^item> \<open>Http_Hook\<close>: \<open>useHttpClient\<close> as a state machine: a record of its state and of
    the runtime's (pending calls, aborted controllers, mounted flag, ignored updates),
    \<open>sendRequest\<close> split at its \<open>await\<close> into \<open>Send\<close> and \<open>Settle\<close>, \<open>clearError\<close>,
    the unmount cleanup; a step function, runs over event lists, the inductive set of
    reachable states and the invariant \<open>hook_inv\<close> proved by rule induction.

  \<^bold>\<open>What the lemmas show.\<close>
  Controllers (C1--C13): create, update and delete keep the place/user invariant for
  every request and every pattern of store failures; create and delete refine the atomic
  \<open>link_place\<close>/\<open>unlink_place\<close> (all or nothing); a 201 create lists the new id exactly
  once; a 200 delete leaves no reference; a failing second write leaves the store as it
  was; update touches only title and description; a user without places gets 404.
  Two code bugs are proved as they are: \<open>updatePlace\<close> on a missing place sends no
  answer at all, and a geocoder failure makes \<open>createPlace\<close> call \<open>next\<close> twice.
  Hook (C14--C19, C21--C23): the invariant; settling clears \<open>isLoading\<close>; unmount aborts each
  outstanding controller exactly once; a rejected fetch keeps its controller (the spec
  says it is removed); a cancelled call still updates an unmounted component (the spec
  forbids it); error responses reject with the body's message; \<open>clearError\<close> only
  clears the error; a response drops its controller; \<open>isLoading\<close> races between
  overlapping calls of a mounted component.  Across backend and hook (C20): every non-ok
  JSON answer of the application carries a non-empty message, which is what the hook
  stores as its error.
  Application and end to end (C24--C32): the CORS headers are on a response exactly when
  the JSON body parsed (a malformed body is rejected before the CORS middleware runs);
  the dead \<open>headerSent\<close> guard; every routed \<open>/api/places\<close> request is answered
  exactly when it is not a PATCH of a missing place; unrouted requests get 404;
  \<open>GET /api/places/doesnotexist\<close> gets the spec's 404 (the 12-character id casts), a
  malformed id gets 500; a geocoder failure reaches the client as its own status, then
  the handler's second \<open>next\<close> makes Express's final handler destroy the socket; a
  place created by POST is found by GET on its hex id; a CORS preflight gets 200 with
  \<open>Allow\<close> and the CORS headers.

  \<^bold>\<open>Bounds and fuel.\<close>  No loop of the program is unbounded: the backend handlers are
  straight-line code over a bounded number of awaits, and the hook's loops are
  \<open>filter\<close> and \<open>forEach\<close> over its list; all definitions are \<open>definition\<close>,
  \<open>primrec\<close>-style \<open>fun\<close> or structural recursion, so no fuel is needed.

  \<^bold>\<open>Not modelled.\<close>  The body parser's internals (its verdict on the body is part of
  the request), the users routes and controllers (a parameter of \<open>serve\<close>), the
  geocoder's HTTP call (a parameter), the validation rules (their verdict is a
  parameter), percent-decoding of path parameters, the \<open>Content-Type\<close>/\<open>ETag\<close>
  headers \<open>res.json\<close> adds, what Node does with an unhandled promise rejection (the
  escaping exceptions are recorded, not their effect on the process), password hashing,
  UI rendering, the database connection's internals.  Interleaving of concurrent requests
  on the server is not modelled: each request is one atomic function of the
  collections, which is what the transactions are for; readers never see a half-applied
  create or delete because the collections change only at commit.

  \<^bold>\<open>Plan for the following sittings.\<close>  (1) a small-step model of the create and delete
  transactions interleaved with concurrent readers and writers, to state isolation as a
  simulation of the atomic \<open>link_place\<close>/\<open>unlink_place\<close>; (2) the startup sequence's
  ordering and connect-failure behaviour as claims; (3) whole client sessions: hook runs
  whose responses are \<open>serve\<close>'s answers to the requests they send; (4) the ObjectId
  cast's lower-case normalisation and its non-injectivity (a 12-character and a 24-digit
  string naming the same document).
\<close>

subsection \<open>An example environment\<close>

definition demo_env :: app_env where
  "demo_env = \<lparr>env_fails = no_faults, env_geocode = demo_geocode, env_new_id = demo_place_id,
               env_users = (\<lambda>_ _. None)\<rparr>"

definition demo_geocode_fail :: "string \<Rightarrow> http_error + coords" where
  "demo_geocode_fail a = Inl (HttpError ''Could not find location for the specified address.'' 422)"

definition demo_request :: "http_method \<Rightarrow> string list \<Rightarrow> request" where
  "demo_request m p = \<lparr>req_method = m, req_path = p, req_body_error = None, req_title = ''Loop'',
                        req_description = ''Campus'', req_address = ''1 Infinite Loop'',
                        req_creator = oid_hex demo_user_id, req_valid = True\<rparr>"

text \<open>
  What the client can rely on in an error answer: a JSON answer whose status is not ok
  carries a non-empty \<open>message\<close>.
\<close>

definition error_msg_ok :: "response \<Rightarrow> bool" where
  "error_msg_ok res \<longleftrightarrow> (\<forall>n b. sent res = Some (n, Json b) \<longrightarrow> \<not> response_ok n \<longrightarrow> body_message b \<noteq> [])"

lemmas serve_eval = serve_def app_stack_def places_outcome_def users_outcome_def mount_rest_def ci_eq_def
  places_route_def places_stack_def handles_def route_methods_def route_method_names_def append_methods_def
  run_place_route_def demo_env_def demo_request_def set_header_def cors_def cors_headers_def
  error_handler_def send_json_def send_text_def fresh_response_def final_handler_def
  error_status_def error_text_def HttpError_def route_not_found_def lower_ascii_def

subsection \<open>Error answers as the hook sees them\<close>

lemma error_msg_ok_frame [simp]:
  "error_msg_ok (set_header k v res) = error_msg_ok res"
  "error_msg_ok (cors res) = error_msg_ok res"
  "error_msg_ok fresh_response"
  by (simp_all add: error_msg_ok_def cors_def cors_headers_def set_header_def fresh_response_def)

lemma error_msg_ok_steps:
  assumes "error_msg_ok res"
  shows "response_ok n \<Longrightarrow> error_msg_ok (send_json n b res)" and "error_msg_ok (send_text n s res)"
    and "error_msg_ok (error_handler e res)" and "error_msg_ok (final_handler err req res)"
  using assms
  by (auto simp: error_msg_ok_def send_json_def send_text_def error_handler_def final_handler_def
           body_message_def split: option.splits)

lemma error_walk_msg_ok: "error_msg_ok res \<Longrightarrow> error_msg_ok (fst (error_walk req ls e res))"
  by (induction req ls e res rule: error_walk.induct) (simp_all add: error_msg_ok_steps)

lemma apply_actions_msg_ok:
  "(\<forall>n b. Respond n b \<in> set acts \<longrightarrow> response_ok n) \<Longrightarrow> error_msg_ok res \<Longrightarrow>
     error_msg_ok (apply_actions req ls acts res)"
proof (induction req ls acts res rule: apply_actions.induct)
  case (2 req ls n b acts res)
  have ok: "\<forall>n b. Respond n b \<in> set acts \<longrightarrow> response_ok n" using 2(2) by simp
  have "error_msg_ok (send_json n b res)" using 2(2,3) by (simp add: error_msg_ok_steps)
  from 2(1) [OF ok this] show ?case by simp
next
  case (3 req ls e acts res)
  obtain res' ls' where w: "error_walk req ls e res = (res', ls')" by (cases "error_walk req ls e res")
  have "error_msg_ok res'" using error_walk_msg_ok [OF 3(3), of req ls e] w by simp
  with 3(1) [OF w [symmetric]] 3(2) w show ?case by simp
qed simp_all

lemma run_place_route_msg_ok:
  "error_msg_ok res \<Longrightarrow> error_msg_ok (apply_actions req ls (fst (run_place_route env d req r)) res)"
  by (rule apply_actions_msg_ok) (auto simp: response_ok_def dest: run_place_route_respond_status)

lemma walk_msg_ok:
  "users_outcome env req d = None \<Longrightarrow> error_msg_ok res \<Longrightarrow> error_msg_ok (fst (walk env d req ls res))"
proof (induction env d req ls res rule: walk.induct)
  case (3 env d req ls res)
  then show ?case by (cases "req_body_error req") (simp_all add: error_walk_msg_ok)
next
  case (5 env d req ls res)
  show ?case
  proof (cases "places_outcome req")
    case (Handle r)
    have "error_msg_ok (apply_actions req ls (fst (run_place_route env d req r)) res)"
      by (rule run_place_route_msg_ok [OF 5(3)])
    with Handle show ?thesis by (cases "run_place_route env d req r") simp
  next
    case (Allow_Methods ms)
    with 5(3) show ?thesis by (simp add: error_msg_ok_steps)
  next
    case No_Match
    with 5 show ?thesis by simp
  qed
next
  case (6 env d req ls res)
  then show ?case by simp
next
  case (7 env d req ls res)
  then show ?case by (simp add: error_walk_msg_ok)
qed (simp_all add: error_msg_ok_steps)


subsection \<open>The client's view of the application's errors\<close>

text \<open>
  C20: when no users route handles a request, every JSON answer of the application whose
  status is not ok carries a non-empty \<open>message\<close> (the places controllers answer directly
  only with 200 and 201, everything else goes through the error handler, whose
  \<open>error.message || ...\<close> supplies a default), so a mounted \<open>useHttpClient\<close> that receives
  the answer for a live call stores exactly that message as its error, never an empty one.
\<close>

theorem serve_error_reaches_hook:
  assumes "users_outcome env req d = None" and "sent (fst (serve env d req)) = Some (n, Json b)"
    and "\<not> response_ok n" and "mounted st" and "c \<in> set (pending st)" and "c \<notin> set (aborted st)"
  shows "error (fst (hook_step st (Settle c (Response n b)))) = Some (body_message b) \<and> body_message b \<noteq> []"
proof -
  have "error_msg_ok (fst (serve env d req))"
    unfolding serve_def by (rule walk_msg_ok [OF assms(1) error_msg_ok_frame(3)])
  with assms(2,3) have "body_message b \<noteq> []" by (simp add: error_msg_ok_def)
  moreover have "error (fst (hook_step st (Settle c (Response n b)))) = Some (body_message b)"
    using assms(3-6) by (simp add: send_settle_def send_catch_def drop_controller_def Let_def)
  ultimately show ?thesis by blast
qed

theorem serve_error_reaches_hook_witness:
  "error (fst (hook_step (fst (hook_run hook_init [Send]))
     (Settle 0 (Response 404 (Message_Body ''Could not find a place for the provided id.'')))))
     = Some ''Could not find a place for the provided id.''"
proof -
  have h: "users_outcome demo_env (demo_request GET [''api'', ''places'', ''doesnotexist'']) demo_db = None"
    "sent (fst (serve demo_env demo_db (demo_request GET [''api'', ''places'', ''doesnotexist''])))
       = Some (404, Json (Message_Body ''Could not find a place for the provided id.''))"
    "\<not> response_ok 404" "mounted (fst (hook_run hook_init [Send]))"
    "0 \<in> set (pending (fst (hook_run hook_init [Send])))" "0 \<notin> set (aborted (fst (hook_run hook_init [Send])))"
    by (simp_all add: serve_eval hook_eval getPlaceById_def find_place_by_id_def await_def no_faults_def
                      cast_oid_def demo_db_def)
  show ?thesis using serve_error_reaches_hook [OF h] by (simp add: body_message_def)
qed

subsection \<open>Properties that span the application and the controllers\<close>

text \<open>
  C26: a request whose body parsed and that the places router hands to one of the five
  controllers gets a response sent exactly when it is not a PATCH, with valid inputs, of
  a well-formed id whose place is missing: that one request is never answered.
\<close>

theorem serve_places_route_answers:
  assumes "req_body_error req = None" and "req_path req = ''api'' # ''places'' # rest"
    and "places_route (req_method req) rest = Some r"
  shows "sent (fst (serve env d req)) = None \<longleftrightarrow>
           (\<exists>pid. r = Update_Place pid \<and> req_valid req \<and> find_place_by_id (env_fails env) d pid = Some None)"
proof -
  let ?ls = "[Users_Mount, Not_Found_Mw, Error_Mw]"
  have serve_r: "fst (serve env d req) = apply_actions req ?ls (fst (run_place_route env d req r)) routed_response"
    using serve_handle [OF assms(1) places_outcome_handle [OF assms(2,3)]] by simp
  from run_place_route_answers [of env d req r] show ?thesis
  proof
    assume "\<exists>a rest. fst (run_place_route env d req r) = a # rest \<and> first_answer a \<noteq> None \<and>
      \<not> (\<exists>pid. r = Update_Place pid \<and> req_valid req \<and> find_place_by_id (env_fails env) d pid = Some None)"
    then obtain a acts where acts: "fst (run_place_route env d req r) = a # acts"
      and fa: "first_answer a \<noteq> None"
      and nc: "\<not> (\<exists>pid. r = Update_Place pid \<and> req_valid req \<and> find_place_by_id (env_fails env) d pid = Some None)"
      by blast
    have "sent (fst (serve env d req)) \<noteq> None"
      using fa apply_actions_first [OF routed_response_fresh(1,2), of ?ls req a acts] serve_r acts
      by (auto split: option.splits)
    with nc show ?thesis by blast
  next
    assume "fst (run_place_route env d req r) = [Uncaught ''TypeError: Cannot set property title of null''] \<and>
      (\<exists>pid. r = Update_Place pid \<and> req_valid req \<and> find_place_by_id (env_fails env) d pid = Some None)"
    with serve_r show ?thesis by (simp add: sent_single_uncaught)
  qed
qed

theorem serve_places_route_answers_witness:
  "sent (fst (serve demo_env demo_db (demo_request PATCH [''api'', ''places'', oid_hex demo_place_id]))) = None"
proof -
  have p: "req_body_error (demo_request PATCH [''api'', ''places'', oid_hex demo_place_id]) = None"
    "req_path (demo_request PATCH [''api'', ''places'', oid_hex demo_place_id]) = ''api'' # ''places'' # [oid_hex demo_place_id]"
    by (simp_all add: demo_request_def)
  have r: "places_route (req_method (demo_request PATCH [''api'', ''places'', oid_hex demo_place_id])) [oid_hex demo_place_id]
             = Some (Update_Place (oid_hex demo_place_id))"
    by (simp add: demo_request_def places_route_def places_stack_def handles_def demo_place_id_def)
  have c: "req_valid (demo_request PATCH [''api'', ''places'', oid_hex demo_place_id]) \<and>
           find_place_by_id (env_fails demo_env) demo_db (oid_hex demo_place_id) = Some None"
    by (simp add: demo_request_def demo_env_def find_place_by_id_def await_def no_faults_def demo_db_def)
  show ?thesis using serve_places_route_answers [OF p r, of demo_env demo_db] c by blast
qed


text \<open>
  C27: a request whose body parsed and that neither the places router (no route for its
  method and path, and not an \<open>OPTIONS\<close> request on a places path) nor the users router
  handles is answered by the not-found middleware and the error handler with
  \<open>404 {message: "Could not find this route :("}\<close>, and changes nothing.
\<close>

theorem serve_unknown_route_not_found:
  assumes "req_body_error req = None" and "places_outcome req = No_Match"
    and "users_outcome env req d = None"
  shows "sent (fst (serve env d req)) = Some (404, Json (Message_Body ''Could not find this route :('')) \<and>
         snd (serve env d req) = d"
  using assms
  by (simp add: serve_routed error_handler_def send_json_def route_not_found_def HttpError_def
                error_status_def error_text_def cors_def cors_headers_def set_header_def fresh_response_def)

theorem serve_unknown_route_not_found_witness:
  "sent (fst (serve demo_env demo_db (demo_request PUT [''api'', ''places'', ''p1'']))) =
     Some (404, Json (Message_Body ''Could not find this route :('')) \<and>
   snd (serve demo_env demo_db (demo_request PUT [''api'', ''places'', ''p1''])) = demo_db"
proof -
  have h: "req_body_error (demo_request PUT [''api'', ''places'', ''p1'']) = None"
    "places_outcome (demo_request PUT [''api'', ''places'', ''p1'']) = No_Match"
    "users_outcome demo_env (demo_request PUT [''api'', ''places'', ''p1'']) demo_db = None"
    by (simp_all add: serve_eval)
  show ?thesis using serve_unknown_route_not_found [OF h] by blast
qed

text \<open>
  C28: \<open>GET /api/places/:pid\<close> for a well-formed id with no place answers
  \<open>404 {message: "Could not find a place for the provided id."}\<close> (the spec's example,
  whose id \<open>doesnotexist\<close> has twelve characters and so casts).
\<close>

theorem serve_get_absent_place_not_found:
  assumes "req_body_error req = None" and "req_method req = GET" and "req_path req = [''api'', ''places'', pid]"
    and "cast_oid pid = Some i" and "place_coll d i = None" and "\<not> env_fails env Find_Place"
  shows "sent (fst (serve env d req)) = Some (404, Json (Message_Body ''Could not find a place for the provided id.'')) \<and>
         snd (serve env d req) = d"
proof -
  have "pid \<noteq> []" using assms(4) by (auto simp: cast_oid_def)
  with assms have "places_outcome req = Handle (Get_Place pid)"
    by (simp add: places_outcome_def mount_rest_def places_route_def places_stack_def handles_def)
  with assms show ?thesis
    by (simp add: serve_handle run_place_route_def getPlaceById_def find_place_by_id_def await_def
                  error_handler_def send_json_def HttpError_def error_status_def error_text_def
                  cors_def cors_headers_def set_header_def fresh_response_def)
qed

theorem serve_get_absent_place_not_found_witness:
  "sent (fst (serve demo_env demo_db (demo_request GET [''api'', ''places'', ''doesnotexist'']))) =
     Some (404, Json (Message_Body ''Could not find a place for the provided id.''))"
proof -
  have h: "req_body_error (demo_request GET [''api'', ''places'', ''doesnotexist'']) = None"
    "req_method (demo_request GET [''api'', ''places'', ''doesnotexist'']) = GET"
    "req_path (demo_request GET [''api'', ''places'', ''doesnotexist'']) = [''api'', ''places'', ''doesnotexist'']"
    "cast_oid ''doesnotexist'' = Some (map (\<lambda>c. of_nat (of_char c)) ''doesnotexist'')"
    "place_coll demo_db (map (\<lambda>c. of_nat (of_char c)) ''doesnotexist'') = None"
    "\<not> env_fails demo_env Find_Place"
    by (simp_all add: demo_request_def cast_oid_def demo_db_def demo_env_def no_faults_def)
  show ?thesis using serve_get_absent_place_not_found [OF h] by blast
qed

text \<open>
  C29: \<open>GET /api/places/:pid\<close> with a non-empty id that does not cast to an ObjectId
  makes the query reject with a CastError and answers 500 "Something went wrong, could
  not find place!", not 404; the spec does not cover malformed ids.
\<close>

theorem serve_get_malformed_id_error:
  assumes "req_body_error req = None" and "req_method req = GET" and "req_path req = [''api'', ''places'', pid]"
    and "pid \<noteq> []" and "cast_oid pid = None"
  shows "sent (fst (serve env d req)) = Some (500, Json (Message_Body ''Something went wrong, could not find place!''))"
proof -
  from assms have "places_outcome req = Handle (Get_Place pid)"
    by (simp add: places_outcome_def mount_rest_def places_route_def places_stack_def handles_def)
  with assms show ?thesis
    by (simp add: serve_handle run_place_route_def getPlaceById_def find_place_by_id_def
                  error_handler_def send_json_def HttpError_def error_status_def error_text_def
                  cors_def cors_headers_def set_header_def fresh_response_def)
qed

theorem serve_get_malformed_id_error_witness:
  "sent (fst (serve demo_env demo_db (demo_request GET [''api'', ''places'', ''abc'']))) =
     Some (500, Json (Message_Body ''Something went wrong, could not find place!''))"
proof -
  have h: "req_body_error (demo_request GET [''api'', ''places'', ''abc'']) = None"
    "req_method (demo_request GET [''api'', ''places'', ''abc'']) = GET"
    "req_path (demo_request GET [''api'', ''places'', ''abc'']) = [''api'', ''places'', ''abc'']"
    "''abc'' \<noteq> []" "cast_oid ''abc'' = None"
    by (simp_all add: demo_request_def cast_oid_def)
  show ?thesis using serve_get_malformed_id_error [OF h] by blast
qed

text \<open>
  C30: end to end, a geocoder failure in \<open>POST /api/places\<close> reaches the client as the
  geocoder error's own status and message; the controller goes on (line 103 has no
  \<open>return\<close>), its save fails, and its second \<open>next(error)\<close> resumes Express's walk past
  the error handler, so the final handler destroys the socket; nothing is stored.
\<close>

theorem serve_geocode_failure_closes_connection:
  assumes "req_body_error req = None" and "req_method req = POST" and "req_path req = [''api'', ''places'']"
    and "req_valid req" and "env_geocode env (req_address req) = Inl e"
  shows "sent (fst (serve env d req)) = Some (error_status e, Json (Message_Body (error_text e))) \<and>
         send_errors (fst (serve env d req)) = [] \<and> destroyed (fst (serve env d req)) \<and>
         snd (serve env d req) = d"
proof -
  have "\<exists>e'. createPlace (env_fails env) (env_geocode env) (req_valid req) (env_new_id env) d
      (req_title req) (req_description req) (req_address req) (req_creator req) = ([Next e, Next e'], d)"
    using assms
    by (auto simp: createPlace_def await_coordinates_def run_transaction_def create_writes_def
                   insert_place_def place_schema_valid_def new_place_def split: option.splits)
  then obtain e' where c: "createPlace (env_fails env) (env_geocode env) (req_valid req) (env_new_id env) d
      (req_title req) (req_description req) (req_address req) (req_creator req) = ([Next e, Next e'], d)"
    by blast
  have "places_outcome req = Handle Create_Place"
    using assms(2,3) by (simp add: places_outcome_def mount_rest_def places_route_def places_stack_def handles_def)
  with assms(1) c show ?thesis
    by (simp add: serve_handle run_place_route_def error_handler_def send_json_def final_handler_def
                  cors_def cors_headers_def set_header_def fresh_response_def)
qed

theorem serve_geocode_failure_closes_connection_witness:
  "sent (fst (serve (demo_env\<lparr>env_geocode := demo_geocode_fail\<rparr>) demo_db (demo_request POST [''api'', ''places'']))) =
     Some (422, Json (Message_Body ''Could not find location for the specified address.'')) \<and>
   destroyed (fst (serve (demo_env\<lparr>env_geocode := demo_geocode_fail\<rparr>) demo_db (demo_request POST [''api'', ''places'']))) \<and>
   snd (serve (demo_env\<lparr>env_geocode := demo_geocode_fail\<rparr>) demo_db (demo_request POST [''api'', ''places''])) = demo_db"
proof -
  have h: "req_body_error (demo_request POST [''api'', ''places'']) = None"
    "req_method (demo_request POST [''api'', ''places'']) = POST"
    "req_path (demo_request POST [''api'', ''places'']) = [''api'', ''places'']"
    "req_valid (demo_request POST [''api'', ''places''])"
    "env_geocode (demo_env\<lparr>env_geocode := demo_geocode_fail\<rparr>) (req_address (demo_request POST [''api'', ''places'']))
       = Inl (HttpError ''Could not find location for the specified address.'' 422)"
    by (simp_all add: demo_request_def demo_geocode_fail_def)
  show ?thesis using serve_geocode_failure_closes_connection [OF h, of demo_db]
    by (simp add: error_status_def error_text_def HttpError_def)
qed


text \<open>
  C31: round trip: when \<open>POST /api/places\<close> answers 201 with a place document, a GET
  of the document's id printed in hex (which is the \<open>id\<close> virtual of the JSON views)
  finds exactly that place in the store the POST left.
\<close>

theorem serve_create_then_get:
  assumes "req_method req = POST" and "req_path req = [''api'', ''places'']"
    and "serve env d req = (res, d')" and "sent res = Some (201, Json (Place_Body (Place_Document i p)))"
    and "length i = 12"
  shows "getPlaceById no_faults d' (oid_hex i) = [Respond 200 (Place_Body (Place_Object i p))] \<and>
         json_id (Place_Object i p) = Some (oid_hex i)"
proof -
  let ?run = "createPlace (env_fails env) (env_geocode env) (req_valid req) (env_new_id env) d
      (req_title req) (req_description req) (req_address req) (req_creator req)"
  let ?ls = "[Users_Mount, Not_Found_Mw, Error_Mw]"
  have body: "req_body_error req = None"
  proof (rule ccontr)
    assume "req_body_error req \<noteq> None"
    then obtain m where "req_body_error req = Some m" by blast
    from serve_body_error_sent [OF this, of env d] assms(3,4) show False by simp
  qed
  have "places_outcome req = Handle Create_Place"
    using assms(1,2) by (simp add: places_outcome_def mount_rest_def places_route_def places_stack_def handles_def)
  from serve_handle [OF body this, of env d] assms(3)
  have res: "res = apply_actions req ?ls (fst ?run) routed_response" and d': "d' = snd ?run"
    by (simp_all add: run_place_route_def)
  from sent_from_action [OF routed_response_fresh(1,2), of ?ls req "fst ?run"] assms(4) res
  obtain a where a: "a \<in> set (fst ?run)" "first_answer a = Some (201, Json (Place_Body (Place_Document i p)))"
    by auto
  have "a = Respond 201 (Place_Body (Place_Document i p))"
    using a(2) by (cases a) (auto simp: first_answer_def)
  with a(1) have resp: "Respond 201 (Place_Body (Place_Document i p)) \<in> set (fst ?run)" by simp
  then obtain k u where fu: "find_user_by_id (env_fails env) d (req_creator req) = Some (Some (k, u))"
    and i: "i = env_new_id env"
    and p: "p = new_place (req_title req) (req_description req) (req_address req)
                 (snd (await_coordinates (env_geocode env (req_address req)))) k"
    using createPlace_respond_shape by blast
  from createPlace_success_cases [of "env_fails env" "env_geocode env" "req_valid req" "env_new_id env" d
      "req_title req" "req_description req" "req_address req" "req_creator req" "fst ?run" "snd ?run"] resp fu
  have w: "run_transaction (env_fails env) d (create_writes (env_fails env) (env_new_id env) p k u) = Some d'"
    using p d' by auto
  have uk: "user_coll d k = Some u" using fu by (auto simp: store_simps)
  have "creator p = k" using p by (simp add: new_place_def)
  with w uk have "d' = link_place d i p" using create_writes_link i by (auto simp: store_simps)
  then have "place_coll d' i = Some p" by (simp add: link_place_def)
  with assms(5) show ?thesis
    by (simp add: getPlaceById_def find_place_by_id_def await_def no_faults_def json_id_def)
qed

theorem serve_create_then_get_witness:
  "serve demo_env demo_db (demo_request POST [''api'', ''places''])
     = (routed_response\<lparr>sent := Some (201, Json (Place_Body (Place_Document demo_place_id demo_place))),
                         headersSent := True\<rparr>, demo_db2) \<and>
   getPlaceById no_faults demo_db2 (oid_hex demo_place_id) = [Respond 200 (Place_Body (Place_Object demo_place_id demo_place))]"
proof -
  have run: "serve demo_env demo_db (demo_request POST [''api'', ''places''])
     = (routed_response\<lparr>sent := Some (201, Json (Place_Body (Place_Document demo_place_id demo_place))),
                         headersSent := True\<rparr>, demo_db2)"
    by (simp add: serve_eval eval_defs demo_defs)
  have h: "req_method (demo_request POST [''api'', ''places'']) = POST"
    "req_path (demo_request POST [''api'', ''places'']) = [''api'', ''places'']"
    "sent (routed_response\<lparr>sent := Some (201, Json (Place_Body (Place_Document demo_place_id demo_place))),
                            headersSent := True\<rparr>)
       = Some (201, Json (Place_Body (Place_Document demo_place_id demo_place)))"
    "length demo_place_id = 12"
    by (simp_all add: demo_request_def)
  show ?thesis using run serve_create_then_get [OF h(1,2) run h(3,4)] by blast
qed

text \<open>
  C32: a CORS preflight works: an \<open>OPTIONS\<close> request whose body parsed, on a path under
  \<open>/api/places\<close> (matched without regard to case) that some places route matches, is
  answered by Express's router with 200, the \<open>Allow\<close> header and body listing those
  routes' methods, and the CORS headers; the store is untouched.
\<close>

theorem serve_options_preflight:
  assumes "req_body_error req = None" and "req_method req = OPTIONS"
    and "mount_rest ''places'' (req_path req) = Some rest" and "route_methods rest \<noteq> []"
  shows "sent (fst (serve env d req)) = Some (200, Text (comma_join (route_methods rest))) \<and>
         map_of (res_headers (fst (serve env d req))) ''Allow'' = Some (comma_join (route_methods rest)) \<and>
         has_cors (fst (serve env d req)) \<and> snd (serve env d req) = d"
proof -
  have o: "places_outcome req = Allow_Methods (route_methods rest)"
    using assms(2-4) by (simp add: places_outcome_def)
  let ?r = "set_header ''Allow'' (comma_join (route_methods rest)) routed_response"
  have s: "serve env d req = (send_text 200 (comma_join (route_methods rest)) ?r, d)"
    using assms(1) o by (simp only: serve_routed walk.simps router_outcome.case)
  have "has_cors ?r" by (rule has_cors_set_header) (simp_all add: cors_headers_def has_cors_cors)
  moreover have "sent (send_text 200 (comma_join (route_methods rest)) ?r) = Some (200, Text (comma_join (route_methods rest)))"
    by (simp add: send_text_def)
  moreover have "map_of (res_headers ?r) ''Allow'' = Some (comma_join (route_methods rest))"
    by (simp add: set_header_def update_conv')
  ultimately show ?thesis using s by simp
qed

theorem serve_options_preflight_witness:
  "sent (fst (serve demo_env demo_db (demo_request OPTIONS [''API'', ''Places'', ''p1'']))) =
     Some (200, Text ''GET,HEAD,PATCH,DELETE'') \<and>
   map_of (res_headers (fst (serve demo_env demo_db (demo_request OPTIONS [''API'', ''Places'', ''p1''])))) ''Allow'' =
     Some ''GET,HEAD,PATCH,DELETE'' \<and>
   has_cors (fst (serve demo_env demo_db (demo_request OPTIONS [''API'', ''Places'', ''p1''])))"
proof -
  have h: "req_body_error (demo_request OPTIONS [''API'', ''Places'', ''p1'']) = None"
    "req_method (demo_request OPTIONS [''API'', ''Places'', ''p1'']) = OPTIONS"
    "mount_rest ''places'' (req_path (demo_request OPTIONS [''API'', ''Places'', ''p1''])) = Some [''p1'']"
    "route_methods [''p1''] \<noteq> []"
    by (simp_all add: serve_eval char_of_def bit_simps)
  have m: "comma_join (route_methods [''p1'']) = ''GET,HEAD,PATCH,DELETE''"
    by (simp add: serve_eval)
  show ?thesis using serve_options_preflight [OF h, of demo_env demo_db] m by simp
qed

end
